theory Spec2Isabelle
  imports
    Complex_Main
    "HOL-Library.Sublist"
    "HOL-Library.Char_ord"
    "HOL-Library.List_Lexorder"
    "HOL-Library.Monad_Syntax"
begin

section \<open>The weather function: \<open>backend/WeatherFunction/__init__.py\<close>\<close>

text \<open>
  The endpoint \<open>GET /api/weather?city=...\<close> validates its input, reads the API key from
  the environment, fetches two JSON documents from OpenWeatherMap and reshapes them into
  one payload. The embedding follows the Python source function by function.

  Conventions of the embedding:
  \<^item> A Python \<open>str\<close> inside a JSON document is a \<open>string\<close>, and \<open>str.capitalize\<close> is
    modelled on the ASCII letters.
  \<^item> The strings of the request and of the environment, which the handler trims and
    tests for emptiness, are lists of Unicode code points (\<open>unicode\<close>).
  \<^item> A parsed JSON value is a \<open>json\<close>. A Python \<open>float\<close> is identified with the rational
    number it denotes (\<open>JFloat\<close>); NaN and the infinities are not modelled.
  \<^item> A Python \<open>dict\<close> obtained from a JSON object is the list of its items in insertion
    order, looked up with \<open>map_of\<close>.
  \<^item> An exception that nothing in the source catches (\<open>KeyError\<close>, \<open>IndexError\<close>,
    \<open>TypeError\<close>, \<open>AttributeError\<close>) is the value \<open>None\<close>.
\<close>

subsection \<open>JSON values and the Python operations applied to them\<close>

datatype json =
    JNull
  | JBool bool
  | JInt int
  | JFloat rat
  | JStr string
  | JArr "json list"
  | JObj "(string \<times> json) list"

text \<open>\<open>x[key]\<close> with a string key: only a dict that has the key returns a value.\<close>

fun py_getitem :: "json \<Rightarrow> string \<Rightarrow> json option" where
  "py_getitem (JObj kvs) k = map_of kvs k"
| "py_getitem _ k = None"

text \<open>\<open>x.get(key, default)\<close>: only a dict has the method.\<close>

fun py_get :: "json \<Rightarrow> string \<Rightarrow> json \<Rightarrow> json option" where
  "py_get (JObj kvs) k d = Some (case map_of kvs k of None \<Rightarrow> d | Some v \<Rightarrow> v)"
| "py_get _ k d = None"

text \<open>
  \<open>x[0]\<close>: the first element of a non-empty list, the first character of a non-empty
  string. A dict parsed from JSON has string keys only, so \<open>x[0]\<close> raises \<open>KeyError\<close> on it.
\<close>

fun py_index0 :: "json \<Rightarrow> json option" where
  "py_index0 (JArr (x # xs)) = Some x"
| "py_index0 (JStr (c # cs)) = Some (JStr [c])"
| "py_index0 _ = None"

text \<open>
  \<open>for item in x\<close>: a list yields its elements, a string its characters, a dict its keys;
  nothing else is iterable.
\<close>

fun py_iter :: "json \<Rightarrow> json list option" where
  "py_iter (JArr xs) = Some xs"
| "py_iter (JStr s) = Some (map (\<lambda>c. JStr [c]) s)"
| "py_iter (JObj kvs) = Some (map (\<lambda>kv. JStr (fst kv)) kvs)"
| "py_iter _ = None"

text \<open>
  \<open>x[:10]\<close> used as a dict key: a string gives its first ten characters. A list gives a
  list, which is unhashable, and every other value cannot be sliced.
\<close>

fun py_date_key :: "json \<Rightarrow> string option" where
  "py_date_key (JStr s) = Some (take 10 s)"
| "py_date_key _ = None"

text \<open>
  \<open>needle in x\<close> for a string \<open>needle\<close>: substring test on a string, membership in a
  list, key membership in a dict.
\<close>

fun py_in :: "string \<Rightarrow> json \<Rightarrow> bool option" where
  "py_in needle (JStr s) = Some (sublist needle s)"
| "py_in needle (JArr xs) = Some (JStr needle \<in> set xs)"
| "py_in needle (JObj kvs) = Some (needle \<in> fst ` set kvs)"
| "py_in needle _ = None"

subsubsection \<open>Strings\<close>

definition is_lower :: "char \<Rightarrow> bool" where
  "is_lower c = (CHR ''a'' \<le> c \<and> c \<le> CHR ''z'')"

definition is_upper :: "char \<Rightarrow> bool" where
  "is_upper c = (CHR ''A'' \<le> c \<and> c \<le> CHR ''Z'')"

definition to_upper :: "char \<Rightarrow> char" where
  "to_upper c = (if is_lower c then char_of (of_char c - (32::nat)) else c)"

definition to_lower :: "char \<Rightarrow> char" where
  "to_lower c = (if is_upper c then char_of (of_char c + (32::nat)) else c)"

text \<open>\<open>s.capitalize()\<close>: the first character in upper case, all the others in lower case.\<close>

fun capitalize :: "string \<Rightarrow> string" where
  "capitalize [] = []"
| "capitalize (c # cs) = to_upper c # map to_lower cs"

fun py_capitalize :: "json \<Rightarrow> json option" where
  "py_capitalize (JStr s) = Some (JStr (capitalize s))"
| "py_capitalize _ = None"

text \<open>
  A string as the list of its Unicode code points, and the string of that kind with the
  characters of a literal.
\<close>

type_synonym unicode = "nat list"

definition unicode_of :: "string \<Rightarrow> unicode" where
  "unicode_of s = map of_char s"

text \<open>
  The code points that \<open>str.strip()\<close> removes, which are those of \<open>str.isspace\<close>: tab to
  carriage return, the separators \<open>U+001C\<close> to \<open>U+001F\<close>, space, \<open>U+0085\<close>, \<open>U+00A0\<close>,
  \<open>U+1680\<close>, \<open>U+2000\<close> to \<open>U+200A\<close>, \<open>U+2028\<close>, \<open>U+2029\<close>, \<open>U+202F\<close>, \<open>U+205F\<close> and
  \<open>U+3000\<close>.
\<close>

definition is_space :: "nat \<Rightarrow> bool" where
  "is_space c \<longleftrightarrow>
     c \<in> {9, 10, 11, 12, 13, 28, 29, 30, 31, 32, 133, 160, 5760,
          8232, 8233, 8239, 8287, 12288} \<or>
     (8192 \<le> c \<and> c \<le> 8202)"

text \<open>\<open>s.strip()\<close>: the string without its leading and trailing whitespace.\<close>

definition strip :: "unicode \<Rightarrow> unicode" where
  "strip s = rev (dropWhile is_space (rev (dropWhile is_space s)))"

subsubsection \<open>Numbers\<close>

text \<open>The numeric value of a JSON value; \<open>bool\<close> is a subclass of \<open>int\<close> in Python.\<close>

fun num_of :: "json \<Rightarrow> rat option" where
  "num_of (JInt n) = Some (of_int n)"
| "num_of (JFloat q) = Some q"
| "num_of (JBool b) = Some (if b then 1 else 0)"
| "num_of _ = None"

text \<open>\<open>round(x)\<close> with one argument: the nearest integer, a tie going to the even one.\<close>

definition round_half_even :: "rat \<Rightarrow> int" where
  "round_half_even x =
     (let f = \<lfloor>x\<rfloor>; d = x - of_int f
      in if d < 1 / 2 then f
         else if 1 / 2 < d then f + 1
         else if even f then f else f + 1)"

fun py_round :: "json \<Rightarrow> json option" where
  "py_round (JInt n) = Some (JInt n)"
| "py_round (JBool b) = Some (JInt (if b then 1 else 0))"
| "py_round (JFloat q) = Some (JInt (round_half_even q))"
| "py_round _ = None"

text \<open>
  \<open>round(x, 1)\<close>: an \<open>int\<close> is returned as it is, a \<open>float\<close> is rounded to one decimal
  (the value below is the decimal that Python then stores as the nearest float).
\<close>

fun py_round1 :: "json \<Rightarrow> json option" where
  "py_round1 (JInt n) = Some (JInt n)"
| "py_round1 (JBool b) = Some (JInt (if b then 1 else 0))"
| "py_round1 (JFloat q) = Some (JFloat (of_int (round_half_even (q * 10)) / 10))"
| "py_round1 _ = None"

text \<open>
  \<open>a < b\<close> and \<open>a > b\<close> as \<open>min\<close> and \<open>max\<close> use them. Two numbers are compared by
  value. With an operand that is not a number Python either raises \<open>TypeError\<close> at once
  or (two strings, two lists) goes on to return a non-number from \<open>min\<close>, on which
  \<open>round\<close> raises \<open>TypeError\<close>; \<open>None\<close> stands for both.
\<close>

definition py_lt :: "json \<Rightarrow> json \<Rightarrow> bool option" where
  "py_lt a b =
     (case (num_of a, num_of b) of (Some x, Some y) \<Rightarrow> Some (x < y) | _ \<Rightarrow> None)"

definition py_gt :: "json \<Rightarrow> json \<Rightarrow> bool option" where
  "py_gt a b = py_lt b a"

text \<open>
  \<open>min(values)\<close> and \<open>max(values)\<close>: the first value is the candidate, a later one
  replaces it when it is strictly smaller (greater); an empty sequence raises
  \<open>ValueError\<close>.
\<close>

fun min_loop :: "json \<Rightarrow> json list \<Rightarrow> json option" where
  "min_loop best [] = Some best"
| "min_loop best (v # vs) =
     do { b \<leftarrow> py_lt v best; min_loop (if b then v else best) vs }"

fun max_loop :: "json \<Rightarrow> json list \<Rightarrow> json option" where
  "max_loop best [] = Some best"
| "max_loop best (v # vs) =
     do { b \<leftarrow> py_gt v best; max_loop (if b then v else best) vs }"

fun py_min :: "json list \<Rightarrow> json option" where
  "py_min [] = None"
| "py_min (v # vs) = min_loop v vs"

fun py_max :: "json list \<Rightarrow> json option" where
  "py_max [] = None"
| "py_max (v # vs) = max_loop v vs"

subsection \<open>\<open>_normalize\<close>\<close>

text \<open>
  The expression \<open>r["main"][key]\<close>, and the values of the generator
  \<open>r["main"][key] for r in readings\<close>.
\<close>

definition main_value :: "string \<Rightarrow> json \<Rightarrow> json option" where
  "main_value key r = do { m \<leftarrow> py_getitem r ''main''; py_getitem m key }"

definition main_values :: "string \<Rightarrow> json list \<Rightarrow> json list option" where
  "main_values key readings = those (map (main_value key) readings)"

text \<open>The expression \<open>r["weather"][0][key]\<close>.\<close>

definition weather_value :: "string \<Rightarrow> json \<Rightarrow> json option" where
  "weather_value key r = do {
     w \<leftarrow> py_getitem r ''weather'';
     w0 \<leftarrow> py_index0 w;
     py_getitem w0 key
   }"

text \<open>The dict literal \<open>now\<close>, its six values read in the order of the source.\<close>

definition normalize_now :: "json \<Rightarrow> json option" where
  "normalize_now current = do {
     t \<leftarrow> main_value ''temp'' current;
     temp \<leftarrow> py_round t;
     f \<leftarrow> main_value ''feels_like'' current;
     feels_like \<leftarrow> py_round f;
     d \<leftarrow> weather_value ''description'' current;
     desc \<leftarrow> py_capitalize d;
     icon \<leftarrow> weather_value ''icon'' current;
     humidity \<leftarrow> main_value ''humidity'' current;
     wd \<leftarrow> py_getitem current ''wind'';
     s \<leftarrow> py_getitem wd ''speed'';
     wind \<leftarrow> py_round1 s;
     Some (JObj [(''temp'', temp), (''feels_like'', feels_like), (''desc'', desc),
                 (''icon'', icon), (''humidity'', humidity), (''wind'', wind)])
   }"

text \<open>
  \<open>days.setdefault(date, []).append(item)\<close> on the dict \<open>days\<close>, kept as the list of its
  items in insertion order: a date already present gets the item at the end of its
  readings, a new date is added last with the item as its only reading.
\<close>

type_synonym days = "(string \<times> json list) list"

fun setdefault_append :: "days \<Rightarrow> string \<Rightarrow> json \<Rightarrow> days" where
  "setdefault_append [] date item = [(date, [item])]"
| "setdefault_append ((d, rs) # ds) date item =
     (if d = date then (d, rs @ [item]) # ds
      else (d, rs) # setdefault_append ds date item)"

text \<open>The first loop: \<open>for item in forecast.get("list", [])\<close>.\<close>

fun group_by_date :: "days \<Rightarrow> json list \<Rightarrow> days option" where
  "group_by_date ds [] = Some ds"
| "group_by_date ds (item # items) = do {
     t \<leftarrow> py_getitem item ''dt_txt'';
     date \<leftarrow> py_date_key t;
     group_by_date (setdefault_append ds date item) items
   }"

text \<open>
  \<open>next((r for r in readings if "12:00" in r["dt_txt"]), default)\<close>: the first reading
  that passes the test, the default when the generator is exhausted.
\<close>

fun find_noon :: "json list \<Rightarrow> json \<Rightarrow> json option" where
  "find_noon [] dflt = Some dflt"
| "find_noon (r # rs) dflt = do {
     t \<leftarrow> py_getitem r ''dt_txt'';
     b \<leftarrow> py_in ''12:00'' t;
     if b then Some r else find_noon rs dflt
   }"

text \<open>The body of the second loop after the length test: the dict appended for one date.\<close>

definition day_entry :: "string \<Rightarrow> json list \<Rightarrow> json option" where
  "day_entry date readings = do {
     first \<leftarrow> (case readings of [] \<Rightarrow> None | r # _ \<Rightarrow> Some r);
     noon \<leftarrow> find_noon readings first;
     los \<leftarrow> main_values ''temp_min'' readings;
     lo \<leftarrow> py_min los;
     mn \<leftarrow> py_round lo;
     his \<leftarrow> main_values ''temp_max'' readings;
     hi \<leftarrow> py_max his;
     mx \<leftarrow> py_round hi;
     d \<leftarrow> weather_value ''description'' noon;
     desc \<leftarrow> py_capitalize d;
     icon \<leftarrow> weather_value ''icon'' noon;
     Some (JObj [(''date'', JStr date), (''min'', mn), (''max'', mx),
                 (''desc'', desc), (''icon'', icon)])
   }"

text \<open>
  The second loop, \<open>for date, readings in sorted(days.items())\<close>, with the list
  \<open>daily_forecast\<close> built so far as accumulator; the \<open>break\<close> returns it.
\<close>

fun daily_loop :: "json list \<Rightarrow> days \<Rightarrow> json list option" where
  "daily_loop daily_forecast [] = Some daily_forecast"
| "daily_loop daily_forecast ((date, readings) # rest) =
     (if length daily_forecast \<ge> 5 then Some daily_forecast
      else do {
        e \<leftarrow> day_entry date readings;
        daily_loop (daily_forecast @ [e]) rest
      })"

text \<open>
  \<open>sorted(days.items())\<close> orders the pairs by date: the dates are the keys of a dict,
  hence distinct, so the comparison of two pairs is decided by their dates and never
  looks at the readings.
\<close>

definition sorted_items :: "days \<Rightarrow> days" where
  "sorted_items ds = sort_key fst ds"

definition normalize_weather :: "json \<Rightarrow> json \<Rightarrow> json option" where
  "normalize_weather current forecast = do {
     now \<leftarrow> normalize_now current;
     lst \<leftarrow> py_get forecast ''list'' (JArr []);
     items \<leftarrow> py_iter lst;
     ds \<leftarrow> group_by_date [] items;
     today \<leftarrow> py_getitem current ''dt'';
     daily_forecast \<leftarrow> daily_loop [] (sorted_items ds);
     name \<leftarrow> py_getitem current ''name'';
     sys \<leftarrow> py_getitem current ''sys'';
     country \<leftarrow> py_getitem sys ''country'';
     Some (JObj [(''city'', name), (''country'', country), (''now'', now),
                 (''forecast'', JArr daily_forecast)])
   }"

subsection \<open>The HTTP handler\<close>

text \<open>
  What the handler reads from outside: the environment variables and the answers of
  \<open>requests.get\<close>. A call either returns a response or raises; the \<open>except\<close> clauses of
  \<open>main\<close> tell \<open>requests.exceptions.Timeout\<close> from every other \<open>RequestException\<close>, and
  catch nothing else.
\<close>

datatype exn = Timeout | RequestException | OtherException

datatype 'a outcome = Returns 'a | Raises exn

text \<open>A value of the \<open>params\<close> dict of a call: a string or an integer.\<close>

datatype param = PStr unicode | PInt int

record get_request =
  url :: string
  query :: "(string \<times> param) list"
  timeout :: nat

record response =
  http_status :: nat
  json_result :: "json outcome"

record world =
  environ :: "string \<rightharpoonup> unicode"
  requests_get :: "get_request \<Rightarrow> response outcome"

text \<open>
  The two library functions whose output is text: \<open>json.dumps\<close>, and \<open>str\<close> as the
  f-string applies it to a value that is not a string.
\<close>

record pylib =
  json_dumps :: "json \<Rightarrow> string"
  str_of :: "json \<Rightarrow> string"

record http_request =
  params :: "string \<rightharpoonup> unicode"

record http_response =
  body :: string
  status_code :: nat
  mimetype :: string
  headers :: "(string \<times> string) list"

definition OPENWEATHER_BASE :: string where
  "OPENWEATHER_BASE = ''https://api.openweathermap.org/data/2.5''"

definition TIMEOUT_SECONDS :: nat where
  "TIMEOUT_SECONDS = 8"

text \<open>\<open>resp.raise_for_status()\<close> raises \<open>HTTPError\<close>, a \<open>RequestException\<close>, on a 4xx or 5xx.\<close>

definition raise_for_status :: "response \<Rightarrow> unit outcome" where
  "raise_for_status resp =
     (if 400 \<le> http_status resp \<and> http_status resp < 600 then Raises RequestException
      else Returns ())"

definition current_request :: "unicode \<Rightarrow> unicode \<Rightarrow> get_request" where
  "current_request city api_key =
     \<lparr>url = OPENWEATHER_BASE @ ''/weather'',
      query = [(''q'', PStr city), (''appid'', PStr api_key),
               (''units'', PStr (unicode_of ''metric''))],
      timeout = TIMEOUT_SECONDS\<rparr>"

definition forecast_request :: "unicode \<Rightarrow> unicode \<Rightarrow> get_request" where
  "forecast_request city api_key =
     \<lparr>url = OPENWEATHER_BASE @ ''/forecast'',
      query = [(''q'', PStr city), (''appid'', PStr api_key),
               (''units'', PStr (unicode_of ''metric'')), (''cnt'', PInt 40)],
      timeout = TIMEOUT_SECONDS\<rparr>"

text \<open>
  \<open>_fetch_current\<close> and \<open>_fetch_forecast\<close>: one call of \<open>requests.get\<close>, then
  \<open>raise_for_status\<close>, then \<open>resp.json()\<close>. The second component is the list of the
  calls issued.
\<close>

definition fetch :: "world \<Rightarrow> get_request \<Rightarrow> json outcome \<times> get_request list" where
  "fetch w rq =
     (case requests_get w rq of
        Raises e \<Rightarrow> (Raises e, [rq])
      | Returns resp \<Rightarrow>
          (case raise_for_status resp of
             Raises e \<Rightarrow> (Raises e, [rq])
           | Returns _ \<Rightarrow> (json_result resp, [rq])))"

definition fetch_current ::
  "world \<Rightarrow> unicode \<Rightarrow> unicode \<Rightarrow> json outcome \<times> get_request list" where
  "fetch_current w city api_key = fetch w (current_request city api_key)"

definition fetch_forecast ::
  "world \<Rightarrow> unicode \<Rightarrow> unicode \<Rightarrow> json outcome \<times> get_request list" where
  "fetch_forecast w city api_key = fetch w (forecast_request city api_key)"

text \<open>\<open>_error(status, message)\<close>.\<close>

definition error_response :: "pylib \<Rightarrow> nat \<Rightarrow> string \<Rightarrow> http_response" where
  "error_response lib status message =
     \<lparr>body = json_dumps lib (JObj [(''error'', JStr message)]),
      status_code = status,
      mimetype = ''application/json'',
      headers = [(''Access-Control-Allow-Origin'', ''*'')]\<rparr>"

text \<open>The two \<open>except\<close> clauses; any other exception leaves \<open>main\<close>.\<close>

fun handle_fetch_error :: "pylib \<Rightarrow> exn \<Rightarrow> http_response option" where
  "handle_fetch_error lib Timeout =
     Some (error_response lib 504 ''Upstream API timed out. Please try again.'')"
| "handle_fetch_error lib RequestException =
     Some (error_response lib 502 ''Failed to reach weather service.'')"
| "handle_fetch_error lib OtherException = None"

text \<open>\<open>f"{msg}"\<close>: a string as it is, any other value through \<open>str\<close>.\<close>

definition format_value :: "pylib \<Rightarrow> json \<Rightarrow> string" where
  "format_value lib v = (case v of JStr s \<Rightarrow> s | _ \<Rightarrow> str_of lib v)"

text \<open>
  Steps 4 and 5 of \<open>main\<close>, after both fetches have returned. \<open>cod != 200\<close> compares by
  value, so the float \<open>200.0\<close> counts as 200 and the string \<open>"200"\<close> does not.
\<close>

definition respond :: "pylib \<Rightarrow> json \<Rightarrow> json \<Rightarrow> http_response option" where
  "respond lib current forecast = do {
     cod \<leftarrow> py_get current ''cod'' JNull;
     if num_of cod \<noteq> Some 200 then do {
       msg \<leftarrow> py_get current ''message'' (JStr ''City not found'');
       Some (error_response lib 404 (''OpenWeather error: '' @ format_value lib msg))
     } else do {
       payload \<leftarrow> normalize_weather current forecast;
       Some \<lparr>body = json_dumps lib payload,
             status_code = 200,
             mimetype = ''application/json'',
             headers = [(''Access-Control-Allow-Origin'', ''*'')]\<rparr>
     }
   }"

text \<open>
  \<open>main(req)\<close>. The result is the response returned (\<open>None\<close> when an exception leaves
  the handler) and the list of the upstream calls issued, in order.
\<close>

definition main ::
  "pylib \<Rightarrow> world \<Rightarrow> http_request \<Rightarrow> http_response option \<times> get_request list" where
  "main lib w req =
     (let city = strip (case params req ''city'' of None \<Rightarrow> [] | Some s \<Rightarrow> s) in
      if city = [] then
        (Some (error_response lib 400 ''Missing required parameter: city''), [])
      else
        let api_key = (case environ w ''OPENWEATHER_API_KEY'' of None \<Rightarrow> [] | Some k \<Rightarrow> k) in
        if api_key = [] then
          (Some (error_response lib 500 ''Server configuration error: missing API key''), [])
        else
          (case fetch_current w city api_key of
             (Raises e, calls) \<Rightarrow> (handle_fetch_error lib e, calls)
           | (Returns current, calls) \<Rightarrow>
               (case fetch_forecast w city api_key of
                  (Raises e, calls') \<Rightarrow> (handle_fetch_error lib e, calls @ calls')
                | (Returns forecast, calls') \<Rightarrow>
                    (respond lib current forecast, calls @ calls'))))"

subsection \<open>The forecast as the specification words it\<close>

text \<open>
  The fields of a forecast entry as plain values. Each selector reads the entry with the
  operations of the source and falls back to a fixed value where the source would raise.
\<close>

definition dt_txt_of :: "json \<Rightarrow> string" where
  "dt_txt_of r = (case py_getitem r ''dt_txt'' of Some (JStr s) \<Rightarrow> s | _ \<Rightarrow> [])"

definition date_of :: "json \<Rightarrow> string" where
  "date_of r = take 10 (dt_txt_of r)"

definition temp_of :: "string \<Rightarrow> json \<Rightarrow> rat" where
  "temp_of key r = (case main_value key r \<bind> num_of of Some q \<Rightarrow> q | None \<Rightarrow> 0)"

definition description_of :: "json \<Rightarrow> string" where
  "description_of r = (case weather_value ''description'' r of Some (JStr s) \<Rightarrow> s | _ \<Rightarrow> [])"

definition icon_of :: "json \<Rightarrow> json" where
  "icon_of r = (case weather_value ''icon'' r of Some v \<Rightarrow> v | None \<Rightarrow> JNull)"

text \<open>
  A forecast entry that has everything \<open>_normalize\<close> may read from it: a string
  \<open>dt_txt\<close>, numeric \<open>main.temp_min\<close> and \<open>main.temp_max\<close>, and a first \<open>weather\<close>
  element with a string \<open>description\<close> and an \<open>icon\<close>.
\<close>

definition reading_ok :: "json \<Rightarrow> bool" where
  "reading_ok r \<longleftrightarrow>
     (case py_getitem r ''dt_txt'' of Some (JStr s) \<Rightarrow> True | _ \<Rightarrow> False) \<and>
     main_value ''temp_min'' r \<bind> num_of \<noteq> None \<and>
     main_value ''temp_max'' r \<bind> num_of \<noteq> None \<and>
     (case weather_value ''description'' r of Some (JStr s) \<Rightarrow> True | _ \<Rightarrow> False) \<and>
     weather_value ''icon'' r \<noteq> None"

text \<open>A current-weather document that has everything \<open>_normalize\<close> reads from it.\<close>

definition current_ok :: "json \<Rightarrow> bool" where
  "current_ok current \<longleftrightarrow>
     normalize_now current \<noteq> None \<and>
     py_getitem current ''dt'' \<noteq> None \<and>
     py_getitem current ''name'' \<noteq> None \<and>
     py_getitem current ''sys'' \<bind> (\<lambda>sys. py_getitem sys ''country'') \<noteq> None"

text \<open>The entries of a forecast document: what the first loop iterates over.\<close>

definition forecast_items :: "json \<Rightarrow> json list option" where
  "forecast_items forecast = py_get forecast ''list'' (JArr []) \<bind> py_iter"

text \<open>
  The specification: group the entries by the first ten characters of \<open>dt_txt\<close>; per
  date take the reading whose timestamp contains \<open>12:00\<close>, else the first one, for
  \<open>desc\<close> and \<open>icon\<close>; take the minimum of \<open>temp_min\<close> and the maximum of \<open>temp_max\<close>
  over the readings of the date, rounded; emit at most five days in ascending order.
\<close>

definition spec_dates :: "json list \<Rightarrow> string list" where
  "spec_dates items = sort (remdups (map date_of items))"

definition spec_readings :: "json list \<Rightarrow> string \<Rightarrow> json list" where
  "spec_readings items d = filter (\<lambda>r. date_of r = d) items"

definition spec_noon :: "json list \<Rightarrow> json" where
  "spec_noon rs =
     (case find (\<lambda>r. sublist ''12:00'' (dt_txt_of r)) rs of Some r \<Rightarrow> r | None \<Rightarrow> hd rs)"

definition spec_entry :: "string \<Rightarrow> json list \<Rightarrow> json" where
  "spec_entry d rs =
     JObj [(''date'', JStr d),
           (''min'', JInt (round_half_even (Min (set (map (temp_of ''temp_min'') rs))))),
           (''max'', JInt (round_half_even (Max (set (map (temp_of ''temp_max'') rs))))),
           (''desc'', JStr (capitalize (description_of (spec_noon rs)))),
           (''icon'', icon_of (spec_noon rs))]"

definition spec_day :: "json list \<Rightarrow> string \<Rightarrow> json" where
  "spec_day items d = spec_entry d (spec_readings items d)"

definition spec_forecast :: "json list \<Rightarrow> json list" where
  "spec_forecast items = map (spec_day items) (take 5 (spec_dates items))"

text \<open>The readings stored under a date in \<open>days\<close>; no readings when the date is not a key.\<close>

definition readings_at :: "days \<Rightarrow> string \<Rightarrow> json list" where
  "readings_at ds d = (case map_of ds d of None \<Rightarrow> [] | Some rs \<Rightarrow> rs)"

text \<open>The date of an emitted day entry.\<close>

definition entry_date :: "json \<Rightarrow> string" where
  "entry_date e = (case py_getitem e ''date'' of Some (JStr s) \<Rightarrow> s | _ \<Rightarrow> [])"

subsection \<open>Fixtures\<close>

text \<open>
  A forecast document of 40 three-hourly entries over five dates and a current-weather
  document, in the layout of the OpenWeatherMap answers, with the fields that the
  handler reads.
\<close>

definition fixture_entry :: "string \<Rightarrow> string \<Rightarrow> rat \<Rightarrow> rat \<Rightarrow> string \<Rightarrow> json" where
  "fixture_entry date time lo hi description =
     JObj [(''main'', JObj [(''temp_min'', JFloat lo), (''temp_max'', JFloat hi)]),
           (''weather'', JArr [JObj [(''description'', JStr description),
                                     (''icon'', JStr ''04d'')]]),
           (''dt_txt'', JStr (date @ '' '' @ time))]"

definition fixture_day :: "string \<Rightarrow> rat \<Rightarrow> json list" where
  "fixture_day date t =
     [fixture_entry date ''00:00:00'' (t - 5 / 2) (t - 2) ''clear sky'',
      fixture_entry date ''03:00:00'' (t - 7 / 2) (t - 3) ''clear sky'',
      fixture_entry date ''06:00:00'' (t - 3) (t - 1) ''few clouds'',
      fixture_entry date ''09:00:00'' t (t + 2) ''light rain'',
      fixture_entry date ''12:00:00'' (t + 3) (t + 9 / 2) ''broken Clouds'',
      fixture_entry date ''15:00:00'' (t + 4) (t + 5) ''light rain'',
      fixture_entry date ''18:00:00'' (t + 1) (t + 2) ''mist'',
      fixture_entry date ''21:00:00'' (t - 1) t ''clear sky'']"

definition fixture_items :: "json list" where
  "fixture_items =
     fixture_day ''2024-01-01'' 20 @ fixture_day ''2024-01-02'' 21 @
     fixture_day ''2024-01-03'' (39 / 2) @ fixture_day ''2024-01-04'' 18 @
     fixture_day ''2024-01-05'' 22"

definition fixture_forecast :: json where
  "fixture_forecast =
     JObj [(''cod'', JStr ''200''), (''cnt'', JInt 40), (''list'', JArr fixture_items)]"

text \<open>The timestamp \<open>dt\<close> is noon of 2024-01-01 (UTC), the first date of the forecast.\<close>

definition fixture_current :: json where
  "fixture_current =
     JObj [(''weather'', JArr [JObj [(''description'', JStr ''scattered clouds''),
                                     (''icon'', JStr ''03d'')]]),
           (''main'', JObj [(''temp'', JFloat (45 / 2)), (''feels_like'', JFloat (2331 / 100)),
                           (''humidity'', JInt 78)]),
           (''wind'', JObj [(''speed'', JFloat (412 / 100))]),
           (''dt'', JInt 1704110400),
           (''sys'', JObj [(''country'', JStr ''PE'')]),
           (''name'', JStr ''Lima''),
           (''cod'', JInt 200)]"

text \<open>What \<open>_normalize\<close> makes of the two fixtures.\<close>

definition fixture_daily :: "json list" where
  "fixture_daily =
     [JObj [(''date'', JStr ''2024-01-01''), (''min'', JInt 16), (''max'', JInt 25),
            (''desc'', JStr ''Broken clouds''), (''icon'', JStr ''04d'')],
      JObj [(''date'', JStr ''2024-01-02''), (''min'', JInt 18), (''max'', JInt 26),
            (''desc'', JStr ''Broken clouds''), (''icon'', JStr ''04d'')],
      JObj [(''date'', JStr ''2024-01-03''), (''min'', JInt 16), (''max'', JInt 24),
            (''desc'', JStr ''Broken clouds''), (''icon'', JStr ''04d'')],
      JObj [(''date'', JStr ''2024-01-04''), (''min'', JInt 14), (''max'', JInt 23),
            (''desc'', JStr ''Broken clouds''), (''icon'', JStr ''04d'')],
      JObj [(''date'', JStr ''2024-01-05''), (''min'', JInt 18), (''max'', JInt 27),
            (''desc'', JStr ''Broken clouds''), (''icon'', JStr ''04d'')]]"

definition fixture_payload :: json where
  "fixture_payload =
     JObj [(''city'', JStr ''Lima''), (''country'', JStr ''PE''),
           (''now'', JObj [(''temp'', JInt 22), (''feels_like'', JInt 23),
                          (''desc'', JStr ''Scattered clouds''), (''icon'', JStr ''03d''),
                          (''humidity'', JInt 78), (''wind'', JFloat (41 / 10))]),
           (''forecast'', JArr fixture_daily)]"

text \<open>
  A shorter forecast, out of order and over six dates, with one date that has no
  reading at noon.
\<close>

definition small_items :: "json list" where
  "small_items =
     [fixture_entry ''2024-03-06'' ''09:00:00'' 11 12 ''mist'',
      fixture_entry ''2024-03-02'' ''21:00:00'' (21 / 2) 13 ''light rain'',
      fixture_entry ''2024-03-04'' ''12:00:00'' 8 (19 / 2) ''snow'',
      fixture_entry ''2024-03-01'' ''18:00:00'' 15 16 ''clear sky'',
      fixture_entry ''2024-03-02'' ''12:00:00'' 12 (27 / 2) ''few clouds'',
      fixture_entry ''2024-03-05'' ''12:00:00'' 9 10 ''fog'',
      fixture_entry ''2024-03-03'' ''12:00:00'' (-3 / 2) 0 ''overcast clouds'',
      fixture_entry ''2024-03-02'' ''03:00:00'' 11 12 ''moderate rain'',
      fixture_entry ''2024-03-01'' ''21:00:00'' 14 (31 / 2) ''haze'']"

definition small_forecast :: json where
  "small_forecast = JObj [(''list'', JArr small_items)]"

definition small_daily :: "json list" where
  "small_daily =
     [JObj [(''date'', JStr ''2024-03-01''), (''min'', JInt 14), (''max'', JInt 16),
            (''desc'', JStr ''Clear sky''), (''icon'', JStr ''04d'')],
      JObj [(''date'', JStr ''2024-03-02''), (''min'', JInt 10), (''max'', JInt 14),
            (''desc'', JStr ''Few clouds''), (''icon'', JStr ''04d'')],
      JObj [(''date'', JStr ''2024-03-03''), (''min'', JInt (- 2)), (''max'', JInt 0),
            (''desc'', JStr ''Overcast clouds''), (''icon'', JStr ''04d'')],
      JObj [(''date'', JStr ''2024-03-04''), (''min'', JInt 8), (''max'', JInt 10),
            (''desc'', JStr ''Snow''), (''icon'', JStr ''04d'')],
      JObj [(''date'', JStr ''2024-03-05''), (''min'', JInt 9), (''max'', JInt 10),
            (''desc'', JStr ''Fog''), (''icon'', JStr ''04d'')]]"

definition small_payload :: json where
  "small_payload =
     JObj [(''city'', JStr ''Lima''), (''country'', JStr ''PE''),
           (''now'', JObj [(''temp'', JInt 22), (''feels_like'', JInt 23),
                          (''desc'', JStr ''Scattered clouds''), (''icon'', JStr ''03d''),
                          (''humidity'', JInt 78), (''wind'', JFloat (41 / 10))]),
           (''forecast'', JArr small_daily)]"

text \<open>
  Stand-ins for the two library functions: the examples below do not depend on the text
  that \<open>json.dumps\<close> and \<open>str\<close> produce.
\<close>

definition fixture_lib :: pylib where
  "fixture_lib = \<lparr>json_dumps = (\<lambda>v. ''<json>''), str_of = (\<lambda>v. ''<str>'')\<rparr>"

text \<open>
  A world with the API key set, in which \<open>requests.get\<close> has the first outcome for the
  \<open>/weather\<close> endpoint and the second for any other URL.
\<close>

definition fixture_key :: unicode where
  "fixture_key = unicode_of ''0123456789abcdef''"

definition answering :: "response outcome \<Rightarrow> response outcome \<Rightarrow> world" where
  "answering a b =
     \<lparr>environ = [''OPENWEATHER_API_KEY'' \<mapsto> fixture_key],
      requests_get = (\<lambda>rq. if url rq = OPENWEATHER_BASE @ ''/weather'' then a else b)\<rparr>"

definition ok_response :: "json \<Rightarrow> response outcome" where
  "ok_response doc = Returns \<lparr>http_status = 200, json_result = Returns doc\<rparr>"

definition unavailable :: "response outcome" where
  "unavailable = Returns \<lparr>http_status = 503, json_result = Returns JNull\<rparr>"

definition fixture_world :: world where
  "fixture_world = answering (ok_response fixture_current) (ok_response fixture_forecast)"

text \<open>A request for \<open>" Lima "\<close>, which trims to \<open>"Lima"\<close>.\<close>

definition fixture_request :: http_request where
  "fixture_request = \<lparr>params = [''city'' \<mapsto> unicode_of '' Lima '']\<rparr>"

definition lima :: unicode where
  "lima = unicode_of ''Lima''"

text \<open>An answer with a JSON body that reports an unknown city.\<close>

definition not_found_current :: json where
  "not_found_current = JObj [(''cod'', JStr ''404''), (''message'', JStr ''city not found'')]"

text \<open>
  Worlds without the API key and with an empty one, and requests without a usable city:
  no \<open>city\<close> parameter; space, tab, space; and the three code points \<open>U+00A0\<close> (no-break
  space), \<open>U+0085\<close> (next line) and \<open>U+2003\<close> (em space).
\<close>

definition no_key_world :: world where
  "no_key_world = \<lparr>environ = Map.empty, requests_get = (\<lambda>rq. Raises OtherException)\<rparr>"

definition empty_key_world :: world where
  "empty_key_world =
     \<lparr>environ = [''OPENWEATHER_API_KEY'' \<mapsto> []],
      requests_get = (\<lambda>rq. Raises OtherException)\<rparr>"

definition empty_request :: http_request where
  "empty_request = \<lparr>params = Map.empty\<rparr>"

definition blank_request :: http_request where
  "blank_request = \<lparr>params = [''city'' \<mapsto> [32, 9, 32]]\<rparr>"

definition nbsp_request :: http_request where
  "nbsp_request = \<lparr>params = [''city'' \<mapsto> [160, 133, 8195]]\<rparr>"

section \<open>Properties\<close>

subsection \<open>Rounding\<close>

lemma round_half_even_of_int: "round_half_even (of_int n) = n"
  by (simp add: round_half_even_def)

lemma round_half_even_bounds:
  "of_int (round_half_even x) - 1 / 2 \<le> x \<and> x \<le> of_int (round_half_even x) + 1 / 2"
  unfolding round_half_even_def Let_def
  by (auto simp: not_less) linarith+

lemma round_half_even_mono:
  assumes "x \<le> y"
  shows "round_half_even x \<le> round_half_even y"
proof -
  have fl: "\<lfloor>x\<rfloor> \<le> \<lfloor>y\<rfloor>" using assms by (rule floor_mono)
  show ?thesis
  proof (cases "\<lfloor>x\<rfloor> = \<lfloor>y\<rfloor>")
    case True
    then show ?thesis using assms
      unfolding round_half_even_def Let_def by auto
  next
    case False
    then have "\<lfloor>x\<rfloor> + 1 \<le> \<lfloor>y\<rfloor>" using fl by linarith
    moreover have "round_half_even x \<le> \<lfloor>x\<rfloor> + 1"
      unfolding round_half_even_def Let_def by auto
    moreover have "\<lfloor>y\<rfloor> \<le> round_half_even y"
      unfolding round_half_even_def Let_def by auto
    ultimately show ?thesis by linarith
  qed
qed

lemma py_round_SomeD:
  "py_round v = Some r \<Longrightarrow> \<exists>q. num_of v = Some q \<and> r = JInt (round_half_even q)"
  by (cases v) (auto simp: round_half_even_of_int round_half_even_def)

lemma py_round_num: "num_of v = Some q \<Longrightarrow> py_round v = Some (JInt (round_half_even q))"
  by (cases v) (auto simp: round_half_even_of_int round_half_even_def)

subsection \<open>\<open>min\<close> and \<open>max\<close> followed by \<open>round\<close>\<close>

lemma those_eq_Some: "those xs = Some ys \<longleftrightarrow> xs = map Some ys"
  by (induction xs arbitrary: ys) (auto split: option.splits)

lemma py_lt_SomeD:
  "py_lt a b = Some c \<Longrightarrow> \<exists>x y. num_of a = Some x \<and> num_of b = Some y \<and> c = (x < y)"
  by (auto simp: py_lt_def split: option.splits)

lemma py_lt_num: "num_of a = Some x \<Longrightarrow> num_of b = Some y \<Longrightarrow> py_lt a b = Some (x < y)"
  by (simp add: py_lt_def)

lemma py_gt_SomeD:
  "py_gt a b = Some c \<Longrightarrow> \<exists>x y. num_of a = Some x \<and> num_of b = Some y \<and> c = (y < x)"
  by (auto simp: py_gt_def py_lt_def split: option.splits)

lemma py_gt_num: "num_of a = Some x \<Longrightarrow> num_of b = Some y \<Longrightarrow> py_gt a b = Some (y < x)"
  by (simp add: py_gt_def py_lt_def)

lemma min_loop_value:
  "min_loop best vs = Some m \<Longrightarrow> num_of best = Some b \<Longrightarrow>
     \<exists>qs. map num_of vs = map Some qs \<and> num_of m = Some (fold min qs b)"
proof (induction vs arbitrary: best b)
  case Nil
  then show ?case by simp
next
  case (Cons v vs)
  from Cons.prems obtain c where c: "py_lt v best = Some c"
    and rest: "min_loop (if c then v else best) vs = Some m"
    by (auto split: Option.bind_splits)
  from py_lt_SomeD[OF c] Cons.prems(2) obtain x where x: "num_of v = Some x" and cx: "c = (x < b)"
    by auto
  have "num_of (if c then v else best) = Some (min x b)"
    using x cx Cons.prems(2) by (auto simp: min_def)
  from Cons.IH[OF rest this] obtain qs where
    "map num_of vs = map Some qs" "num_of m = Some (fold min qs (min x b))" by blast
  then have "map num_of (v # vs) = map Some (x # qs) \<and> num_of m = Some (fold min (x # qs) b)"
    using x by simp
  then show ?case by blast
qed

lemma min_loop_total:
  "num_of best = Some b \<Longrightarrow> map num_of vs = map Some qs \<Longrightarrow>
     \<exists>m. min_loop best vs = Some m \<and> num_of m = Some (fold min qs b)"
proof (induction vs arbitrary: best b qs)
  case Nil
  then show ?case by simp
next
  case (Cons v vs)
  then obtain x qs' where qs: "qs = x # qs'" and x: "num_of v = Some x"
    and rest: "map num_of vs = map Some qs'" by (cases qs) auto
  have c: "py_lt v best = Some (x < b)" using x Cons.prems(1) by (rule py_lt_num)
  have "num_of (if x < b then v else best) = Some (min x b)"
    using x Cons.prems(1) by (auto simp: min_def)
  from Cons.IH[OF this rest] show ?case using c qs by simp
qed

lemma round_min_SomeD:
  assumes "py_min vs = Some m" and "py_round m = Some r"
  shows "\<exists>q qs. map num_of vs = map Some (q # qs) \<and> r = JInt (round_half_even (fold min qs q))"
proof (cases vs)
  case Nil
  with assms show ?thesis by simp
next
  case (Cons v ws)
  with assms have loop: "min_loop v ws = Some m" by simp
  have "\<exists>q. num_of v = Some q"
  proof (cases ws)
    case Nil
    with loop assms(2) show ?thesis by (auto dest: py_round_SomeD)
  next
    case (Cons w ws')
    with loop show ?thesis by (auto split: Option.bind_splits dest: py_lt_SomeD)
  qed
  then obtain q where q: "num_of v = Some q" ..
  from min_loop_value[OF loop q] obtain qs where
    qs: "map num_of ws = map Some qs" and m: "num_of m = Some (fold min qs q)" by blast
  from py_round_SomeD[OF assms(2)] m have "r = JInt (round_half_even (fold min qs q))" by auto
  with q qs Cons show ?thesis by auto
qed

lemma round_min_total:
  assumes "map num_of vs = map Some (q # qs)"
  shows "\<exists>m. py_min vs = Some m \<and> py_round m = Some (JInt (round_half_even (fold min qs q)))"
proof -
  from assms obtain v ws where vs: "vs = v # ws" and v: "num_of v = Some q"
    and ws: "map num_of ws = map Some qs" by (cases vs) auto
  from min_loop_total[OF v ws] obtain m where "min_loop v ws = Some m" "num_of m = Some (fold min qs q)"
    by blast
  then show ?thesis using vs by (auto intro: py_round_num)
qed

lemma max_loop_value:
  "max_loop best vs = Some m \<Longrightarrow> num_of best = Some b \<Longrightarrow>
     \<exists>qs. map num_of vs = map Some qs \<and> num_of m = Some (fold max qs b)"
proof (induction vs arbitrary: best b)
  case Nil
  then show ?case by simp
next
  case (Cons v vs)
  from Cons.prems obtain c where c: "py_gt v best = Some c"
    and rest: "max_loop (if c then v else best) vs = Some m"
    by (auto split: Option.bind_splits)
  from py_gt_SomeD[OF c] Cons.prems(2) obtain x where x: "num_of v = Some x" and cx: "c = (b < x)"
    by auto
  have "num_of (if c then v else best) = Some (max x b)"
    using x cx Cons.prems(2) by (auto simp: max_def)
  from Cons.IH[OF rest this] obtain qs where
    "map num_of vs = map Some qs" "num_of m = Some (fold max qs (max x b))" by blast
  then have "map num_of (v # vs) = map Some (x # qs) \<and> num_of m = Some (fold max (x # qs) b)"
    using x by simp
  then show ?case by blast
qed

lemma max_loop_total:
  "num_of best = Some b \<Longrightarrow> map num_of vs = map Some qs \<Longrightarrow>
     \<exists>m. max_loop best vs = Some m \<and> num_of m = Some (fold max qs b)"
proof (induction vs arbitrary: best b qs)
  case Nil
  then show ?case by simp
next
  case (Cons v vs)
  then obtain x qs' where qs: "qs = x # qs'" and x: "num_of v = Some x"
    and rest: "map num_of vs = map Some qs'" by (cases qs) auto
  have c: "py_gt v best = Some (b < x)" using x Cons.prems(1) by (rule py_gt_num)
  have "num_of (if b < x then v else best) = Some (max x b)"
    using x Cons.prems(1) by (auto simp: max_def)
  from Cons.IH[OF this rest] show ?case using c qs by simp
qed

lemma round_max_SomeD:
  assumes "py_max vs = Some m" and "py_round m = Some r"
  shows "\<exists>q qs. map num_of vs = map Some (q # qs) \<and> r = JInt (round_half_even (fold max qs q))"
proof (cases vs)
  case Nil
  with assms show ?thesis by simp
next
  case (Cons v ws)
  with assms have loop: "max_loop v ws = Some m" by simp
  have "\<exists>q. num_of v = Some q"
  proof (cases ws)
    case Nil
    with loop assms(2) show ?thesis by (auto dest: py_round_SomeD)
  next
    case (Cons w ws')
    with loop show ?thesis by (auto split: Option.bind_splits dest: py_gt_SomeD)
  qed
  then obtain q where q: "num_of v = Some q" ..
  from max_loop_value[OF loop q] obtain qs where
    qs: "map num_of ws = map Some qs" and m: "num_of m = Some (fold max qs q)" by blast
  from py_round_SomeD[OF assms(2)] m have "r = JInt (round_half_even (fold max qs q))" by auto
  with q qs Cons show ?thesis by auto
qed

lemma round_max_total:
  assumes "map num_of vs = map Some (q # qs)"
  shows "\<exists>m. py_max vs = Some m \<and> py_round m = Some (JInt (round_half_even (fold max qs q)))"
proof -
  from assms obtain v ws where vs: "vs = v # ws" and v: "num_of v = Some q"
    and ws: "map num_of ws = map Some qs" by (cases vs) auto
  from max_loop_total[OF v ws] obtain m where "max_loop v ws = Some m" "num_of m = Some (fold max qs q)"
    by blast
  then show ?thesis using vs by (auto intro: py_round_num)
qed

subsection \<open>The first loop: grouping by date\<close>

lemma setdefault_append_keys:
  "map fst (setdefault_append ds d item) =
     (if d \<in> fst ` set ds then map fst ds else map fst ds @ [d])"
  by (induction ds d item rule: setdefault_append.induct) auto

lemma readings_at_setdefault_append:
  "readings_at (setdefault_append ds d item) d' =
     (if d' = d then readings_at ds d @ [item] else readings_at ds d')"
  by (induction ds d item rule: setdefault_append.induct) (auto simp: readings_at_def)

lemma group_by_date_SomeD:
  "group_by_date ds0 items = Some ds \<Longrightarrow>
     (\<forall>r\<in>set items. \<exists>s. py_getitem r ''dt_txt'' = Some (JStr s)) \<and>
     set (map fst ds) = set (map fst ds0) \<union> date_of ` set items \<and>
     (distinct (map fst ds0) \<longrightarrow> distinct (map fst ds)) \<and>
     (\<forall>d. readings_at ds d = readings_at ds0 d @ filter (\<lambda>r. date_of r = d) items)"
proof (induction items arbitrary: ds0)
  case Nil
  then show ?case by simp
next
  case (Cons item items)
  from Cons.prems obtain t date where t: "py_getitem item ''dt_txt'' = Some t"
    and date: "py_date_key t = Some date"
    and rest: "group_by_date (setdefault_append ds0 date item) items = Some ds"
    by (auto split: Option.bind_splits)
  from date obtain s where s: "t = JStr s" "date = take 10 s" by (cases t) auto
  have d: "date_of item = date" using t s by (simp add: date_of_def dt_txt_of_def)
  note IH = Cons.IH[OF rest]
  show ?case
    using IH t s d
    by (auto simp: setdefault_append_keys readings_at_setdefault_append split: if_splits)
qed

lemma group_by_date_total:
  "\<forall>r\<in>set items. \<exists>s. py_getitem r ''dt_txt'' = Some (JStr s) \<Longrightarrow>
   \<exists>ds. group_by_date ds0 items = Some ds"
  by (induction items arbitrary: ds0) auto

subsection \<open>One day of the forecast\<close>

lemma map_bind_Some:
  "map f rs = map Some vs \<Longrightarrow> map g vs = map Some qs \<Longrightarrow> map (\<lambda>r. f r \<bind> g) rs = map Some qs"
proof (induction rs arbitrary: vs qs)
  case Nil then show ?case by simp
next
  case (Cons r rs)
  then obtain v vs' q qs' where "vs = v # vs'" "qs = q # qs'" by (cases vs; cases qs) auto
  with Cons show ?case by auto
qed

lemma temp_of_map:
  "map (\<lambda>r. main_value key r \<bind> num_of) rs = map Some qs \<Longrightarrow> map (temp_of key) rs = qs"
  by (induction rs arbitrary: qs) (auto simp: temp_of_def)

lemma day_min:
  assumes "main_values key rs = Some los" "py_min los = Some lo" "py_round lo = Some mn"
  shows "mn = JInt (round_half_even (Min (set (map (temp_of key) rs))))"
proof -
  from assms(1) have 1: "map (main_value key) rs = map Some los"
    by (simp add: main_values_def those_eq_Some)
  from round_min_SomeD[OF assms(2,3)] obtain q qs where
    2: "map num_of los = map Some (q # qs)" and mn: "mn = JInt (round_half_even (fold min qs q))"
    by blast
  have "map (temp_of key) rs = q # qs" using map_bind_Some[OF 1 2] by (rule temp_of_map)
  then have "Min (set (map (temp_of key) rs)) = fold min qs q"
    by (simp only: Min.set_eq_fold)
  then show ?thesis using mn by simp
qed

lemma day_max:
  assumes "main_values key rs = Some his" "py_max his = Some hi" "py_round hi = Some mx"
  shows "mx = JInt (round_half_even (Max (set (map (temp_of key) rs))))"
proof -
  from assms(1) have 1: "map (main_value key) rs = map Some his"
    by (simp add: main_values_def those_eq_Some)
  from round_max_SomeD[OF assms(2,3)] obtain q qs where
    2: "map num_of his = map Some (q # qs)" and mx: "mx = JInt (round_half_even (fold max qs q))"
    by blast
  have "map (temp_of key) rs = q # qs" using map_bind_Some[OF 1 2] by (rule temp_of_map)
  then have "Max (set (map (temp_of key) rs)) = fold max qs q"
    by (simp only: Max.set_eq_fold)
  then show ?thesis using mx by simp
qed

lemma find_noon_eq:
  "\<forall>r\<in>set rs. \<exists>s. py_getitem r ''dt_txt'' = Some (JStr s) \<Longrightarrow>
   find_noon rs dflt =
     Some (case find (\<lambda>r. sublist ''12:00'' (dt_txt_of r)) rs of Some r \<Rightarrow> r | None \<Rightarrow> dflt)"
  by (induction rs) (auto simp: dt_txt_of_def)

lemma find_noon_spec:
  assumes "\<forall>r\<in>set rs. \<exists>s. py_getitem r ''dt_txt'' = Some (JStr s)" "rs = r0 # rs'"
  shows "find_noon rs r0 = Some (spec_noon rs)"
proof -
  have "hd rs = r0" using assms(2) by simp
  then show ?thesis unfolding spec_noon_def find_noon_eq[OF assms(1)] by (simp split: option.split)
qed

lemma desc_eq:
  "weather_value ''description'' r = Some d \<Longrightarrow> py_capitalize d = Some desc \<Longrightarrow>
   desc = JStr (capitalize (description_of r))"
  by (cases d) (auto simp: description_of_def)

lemma icon_eq: "weather_value ''icon'' r = Some icon \<Longrightarrow> icon = icon_of r"
  by (simp add: icon_of_def)

lemma day_entry_SomeD:
  assumes "day_entry d rs = Some e"
    and "\<forall>r\<in>set rs. \<exists>s. py_getitem r ''dt_txt'' = Some (JStr s)"
  shows "e = spec_entry d rs"
proof -
  from assms(1) obtain r0 rs' where rs: "rs = r0 # rs'"
    by (cases rs) (auto simp: day_entry_def)
  have noon: "find_noon rs r0 = Some (spec_noon rs)" using assms(2) rs by (rule find_noon_spec)
  have first: "(case rs of [] \<Rightarrow> None | r # _ \<Rightarrow> Some r) = Some r0" using rs by simp
  from assms(1) obtain los lo mn his hi mx dd desc icon where
    a: "main_values ''temp_min'' rs = Some los" "py_min los = Some lo" "py_round lo = Some mn"
    and b: "main_values ''temp_max'' rs = Some his" "py_max his = Some hi" "py_round hi = Some mx"
    and c: "weather_value ''description'' (spec_noon rs) = Some dd" "py_capitalize dd = Some desc"
    and i: "weather_value ''icon'' (spec_noon rs) = Some icon"
    and e: "e = JObj [(''date'', JStr d), (''min'', mn), (''max'', mx), (''desc'', desc), (''icon'', icon)]"
    unfolding day_entry_def first using noon by (auto split: Option.bind_splits)
  have "mn = JInt (round_half_even (Min (set (map (temp_of ''temp_min'') rs))))"
    using a by (rule day_min)
  moreover have "mx = JInt (round_half_even (Max (set (map (temp_of ''temp_max'') rs))))"
    using b by (rule day_max)
  moreover have "desc = JStr (capitalize (description_of (spec_noon rs)))"
    using c by (rule desc_eq)
  moreover have "icon = icon_of (spec_noon rs)" using i by (rule icon_eq)
  ultimately show ?thesis using e by (simp add: spec_entry_def)
qed

lemma reading_ok_dt_txt: "reading_ok r \<Longrightarrow> \<exists>s. py_getitem r ''dt_txt'' = Some (JStr s)"
  by (auto simp: reading_ok_def split: option.splits json.splits)

lemma main_values_total:
  "\<forall>r\<in>set rs. main_value key r \<bind> num_of \<noteq> None \<Longrightarrow>
   \<exists>vs. main_values key rs = Some vs \<and> map num_of vs = map Some (map (temp_of key) rs)"
proof (induction rs)
  case Nil
  then show ?case by (simp add: main_values_def)
next
  case (Cons r rs)
  then obtain vs where vs: "map (main_value key) rs = map Some vs"
    "map num_of vs = map Some (map (temp_of key) rs)"
    by (auto simp: main_values_def those_eq_Some)
  from Cons.prems obtain v q where v: "main_value key r = Some v" "num_of v = Some q"
    by (auto split: Option.bind_splits)
  then have "temp_of key r = q" by (simp add: temp_of_def)
  with vs v have "map (main_value key) (r # rs) = map Some (v # vs) \<and>
    map num_of (v # vs) = map Some (map (temp_of key) (r # rs))" by simp
  then show ?case unfolding main_values_def those_eq_Some by blast
qed

lemma day_entry_total:
  assumes "rs \<noteq> []" and ok: "\<forall>r\<in>set rs. reading_ok r"
  shows "day_entry d rs = Some (spec_entry d rs)"
proof -
  from assms(1) obtain r0 rs' where rs: "rs = r0 # rs'" by (cases rs) auto
  have dt: "\<forall>r\<in>set rs. \<exists>s. py_getitem r ''dt_txt'' = Some (JStr s)"
    using ok by (blast dest: reading_ok_dt_txt)
  have noon: "find_noon rs r0 = Some (spec_noon rs)" using dt rs by (rule find_noon_spec)
  have "spec_noon rs \<in> set rs"
    using rs by (auto simp: spec_noon_def find_Some_iff split: option.splits)
  then have nok: "reading_ok (spec_noon rs)" using ok by blast
  then obtain s icon where
    d: "weather_value ''description'' (spec_noon rs) = Some (JStr s)"
    and i: "weather_value ''icon'' (spec_noon rs) = Some icon"
    by (auto simp: reading_ok_def split: option.splits json.splits)
  have "\<forall>r\<in>set rs. main_value ''temp_min'' r \<bind> num_of \<noteq> None"
    using ok by (simp add: reading_ok_def)
  from main_values_total[OF this] obtain los where
    los: "main_values ''temp_min'' rs = Some los"
    "map num_of los = map Some (map (temp_of ''temp_min'') rs)" by blast
  have "\<forall>r\<in>set rs. main_value ''temp_max'' r \<bind> num_of \<noteq> None"
    using ok by (simp add: reading_ok_def)
  from main_values_total[OF this] obtain his where
    his: "main_values ''temp_max'' rs = Some his"
    "map num_of his = map Some (map (temp_of ''temp_max'') rs)" by blast
  from los(2) rs have "map num_of los = map Some (temp_of ''temp_min'' r0 # map (temp_of ''temp_min'') rs')"
    by simp
  from round_min_total[OF this] obtain lo where
    lo: "py_min los = Some lo" and "py_round lo = Some (JInt (round_half_even
       (fold min (map (temp_of ''temp_min'') rs') (temp_of ''temp_min'' r0))))" by blast
  then have mn: "py_round lo = Some (JInt (round_half_even (Min (set (map (temp_of ''temp_min'') rs)))))"
    using rs by (simp only: Min.set_eq_fold list.map)
  from his(2) rs have "map num_of his = map Some (temp_of ''temp_max'' r0 # map (temp_of ''temp_max'') rs')"
    by simp
  from round_max_total[OF this] obtain hi where
    hi: "py_max his = Some hi" and "py_round hi = Some (JInt (round_half_even
       (fold max (map (temp_of ''temp_max'') rs') (temp_of ''temp_max'' r0))))" by blast
  then have mx: "py_round hi = Some (JInt (round_half_even (Max (set (map (temp_of ''temp_max'') rs)))))"
    using rs by (simp only: Max.set_eq_fold list.map)
  have first: "(case rs of [] \<Rightarrow> None | r # _ \<Rightarrow> Some r) = Some r0" using rs by simp
  have ds: "description_of (spec_noon rs) = s" using d by (simp add: description_of_def)
  have ic: "icon_of (spec_noon rs) = icon" using i by (simp add: icon_of_def)
  show ?thesis
    unfolding day_entry_def first spec_entry_def ds ic
    by (simp add: noon los(1) lo mn his(1) hi mx d i)
qed

subsection \<open>The second loop and the whole of \<open>_normalize\<close>\<close>

lemma pairs_by_keys:
  "\<forall>p\<in>set xs. snd p = g (fst p) \<Longrightarrow> xs = map (\<lambda>d. (d, g d)) (map fst xs)"
  by (induction xs) (auto simp: prod_eq_iff)

lemma spec_dates_props:
  "sorted (spec_dates items)" "distinct (spec_dates items)"
  "set (spec_dates items) = date_of ` set items"
  by (simp_all add: spec_dates_def)

lemma sorted_items_keys:
  assumes "distinct (map fst ds)" "set (map fst ds) = date_of ` set items"
  shows "map fst (sorted_items ds) = spec_dates items"
proof (rule sorted_distinct_set_unique)
  show "sorted (map fst (sorted_items ds))" by (simp add: sorted_items_def)
  show "distinct (map fst (sorted_items ds))"
    using assms(1) by (simp add: sorted_items_def distinct_map)
  show "sorted (spec_dates items)" "distinct (spec_dates items)"
    by (rule spec_dates_props)+
  show "set (map fst (sorted_items ds)) = set (spec_dates items)"
    using assms(2) by (simp add: sorted_items_def spec_dates_props)
qed

lemma sorted_items_eq:
  assumes "distinct (map fst ds)" "set (map fst ds) = date_of ` set items"
    and "\<forall>d. readings_at ds d = spec_readings items d"
  shows "sorted_items ds = map (\<lambda>d. (d, spec_readings items d)) (spec_dates items)"
proof -
  have "\<forall>p\<in>set (sorted_items ds). snd p = spec_readings items (fst p)"
  proof
    fix p assume "p \<in> set (sorted_items ds)"
    then have "(fst p, snd p) \<in> set ds" by (simp add: sorted_items_def)
    then have "map_of ds (fst p) = Some (snd p)" using assms(1) by (rule map_of_is_SomeI[rotated])
    then have "readings_at ds (fst p) = snd p" by (simp add: readings_at_def)
    with assms(3) show "snd p = spec_readings items (fst p)" by simp
  qed
  from pairs_by_keys[OF this] show ?thesis
    by (simp only: sorted_items_keys[OF assms(1,2)])
qed

lemma daily_loop_SomeD:
  "daily_loop acc xs = Some out \<Longrightarrow>
   \<exists>es. out = acc @ es \<and>
         map (\<lambda>(d, rs). day_entry d rs) (take (5 - length acc) xs) = map Some es"
proof (induction xs arbitrary: acc)
  case Nil
  then show ?case by simp
next
  case (Cons x xs)
  obtain d rs where x: "x = (d, rs)" by (cases x)
  show ?case
  proof (cases "length acc \<ge> 5")
    case True
    with Cons.prems x show ?thesis by simp
  next
    case False
    with Cons.prems x obtain e where e: "day_entry d rs = Some e"
      and rest: "daily_loop (acc @ [e]) xs = Some out"
      by (auto split: Option.bind_splits)
    from Cons.IH[OF rest] obtain es where
      es: "out = (acc @ [e]) @ es"
      "map (\<lambda>(d, rs). day_entry d rs) (take (5 - length (acc @ [e])) xs) = map Some es"
      by blast
    from False obtain k where k: "5 - length acc = Suc k" by (cases "5 - length acc") auto
    then have k': "5 - length (acc @ [e]) = k" by simp
    have "out = acc @ (e # es) \<and>
      map (\<lambda>(d, rs). day_entry d rs) (take (5 - length acc) (x # xs)) = map Some (e # es)"
      using es e x unfolding k k' by simp
    then show ?thesis by blast
  qed
qed

lemma daily_loop_total:
  "map (\<lambda>(d, rs). day_entry d rs) (take (5 - length acc) xs) = map Some es \<Longrightarrow>
   daily_loop acc xs = Some (acc @ es)"
proof (induction xs arbitrary: acc es)
  case Nil
  then show ?case by simp
next
  case (Cons x xs)
  obtain d rs where x: "x = (d, rs)" by (cases x)
  show ?case
  proof (cases "length acc \<ge> 5")
    case True
    with Cons.prems x show ?thesis by simp
  next
    case False
    then obtain k where k: "5 - length acc = Suc k" by (cases "5 - length acc") auto
    with Cons.prems x obtain e es' where es: "es = e # es'" and e: "day_entry d rs = Some e"
      and rest: "map (\<lambda>(d, rs). day_entry d rs) (take k xs) = map Some es'"
      by (cases es) auto
    have "5 - length (acc @ [e]) = k" using k by simp
    with rest have "daily_loop (acc @ [e]) xs = Some ((acc @ [e]) @ es')"
      by (intro Cons.IH) simp
    then show ?thesis using False x e es by simp
  qed
qed

lemma map_Some_determined:
  "map f ks = map Some es \<Longrightarrow> (\<forall>k\<in>set ks. \<forall>e. f k = Some e \<longrightarrow> e = h k) \<Longrightarrow> es = map h ks"
  by (induction ks arbitrary: es) auto

lemma forecast_entries:
  assumes grp: "group_by_date [] items = Some ds"
  shows "sorted_items ds = map (\<lambda>d. (d, spec_readings items d)) (spec_dates items)"
proof -
  from group_by_date_SomeD[OF grp] have
    "distinct (map fst ds)" "set (map fst ds) = date_of ` set items"
    "\<forall>d. readings_at ds d = spec_readings items d"
    by (simp_all add: readings_at_def spec_readings_def)
  then show ?thesis by (rule sorted_items_eq)
qed

lemma take_keys:
  "map (\<lambda>(d, rs). day_entry d rs) (take n (map (\<lambda>d. (d, g d)) ks)) =
   map (\<lambda>d. day_entry d (g d)) (take n ks)"
  by (simp add: take_map)

lemma daily_forecast_SomeD:
  assumes grp: "group_by_date [] items = Some ds"
    and loop: "daily_loop [] (sorted_items ds) = Some daily"
  shows "daily = spec_forecast items"
proof -
  from group_by_date_SomeD[OF grp]
  have dt: "\<forall>r\<in>set items. \<exists>s. py_getitem r ''dt_txt'' = Some (JStr s)" by simp
  from daily_loop_SomeD[OF loop] have
    "map (\<lambda>(d, rs). day_entry d rs) (take 5 (sorted_items ds)) = map Some daily" by simp
  then have m: "map (\<lambda>d. day_entry d (spec_readings items d)) (take 5 (spec_dates items)) = map Some daily"
    unfolding forecast_entries[OF grp] take_keys .
  have "\<forall>d\<in>set (take 5 (spec_dates items)). \<forall>e.
          day_entry d (spec_readings items d) = Some e \<longrightarrow> e = spec_day items d"
  proof (intro ballI allI impI)
    fix d e assume "day_entry d (spec_readings items d) = Some e"
    moreover have "\<forall>r\<in>set (spec_readings items d). \<exists>s. py_getitem r ''dt_txt'' = Some (JStr s)"
      using dt by (simp add: spec_readings_def)
    ultimately show "e = spec_day items d" unfolding spec_day_def by (rule day_entry_SomeD)
  qed
  from map_Some_determined[OF m this] show ?thesis by (simp add: spec_forecast_def)
qed

lemma daily_forecast_total:
  assumes ok: "\<forall>r\<in>set items. reading_ok r"
  shows "\<exists>ds. group_by_date [] items = Some ds \<and>
              daily_loop [] (sorted_items ds) = Some (spec_forecast items)"
proof -
  have dt: "\<forall>r\<in>set items. \<exists>s. py_getitem r ''dt_txt'' = Some (JStr s)"
    using ok by (blast dest: reading_ok_dt_txt)
  from group_by_date_total[OF this] obtain ds where grp: "group_by_date [] items = Some ds" by blast
  have "map (\<lambda>d. day_entry d (spec_readings items d)) (take 5 (spec_dates items)) =
        map Some (map (spec_day items) (take 5 (spec_dates items)))"
  proof (simp, intro ballI)
    fix d assume "d \<in> set (take 5 (spec_dates items))"
    then have "d \<in> date_of ` set items" using spec_dates_props(3) by (blast dest: in_set_takeD)
    then have "spec_readings items d \<noteq> []" by (auto simp: spec_readings_def filter_empty_conv)
    moreover have "\<forall>r\<in>set (spec_readings items d). reading_ok r"
      using ok by (simp add: spec_readings_def)
    ultimately show "day_entry d (spec_readings items d) = Some (spec_day items d)"
      unfolding spec_day_def by (rule day_entry_total)
  qed
  then have "map (\<lambda>(d, rs). day_entry d rs) (take (5 - length ([]::json list)) (sorted_items ds)) =
             map Some (spec_forecast items)"
    unfolding forecast_entries[OF grp] take_keys by (simp add: spec_forecast_def)
  from daily_loop_total[OF this] grp show ?thesis by simp
qed

lemma normalize_weather_SomeD:
  assumes "normalize_weather current forecast = Some payload"
  shows "\<exists>now lst items name country.
           normalize_now current = Some now \<and>
           py_get forecast ''list'' (JArr []) = Some lst \<and>
           py_iter lst = Some items \<and>
           payload = JObj [(''city'', name), (''country'', country), (''now'', now),
                           (''forecast'', JArr (spec_forecast items))]"
proof -
  from assms obtain now lst items ds daily name country where
    "normalize_now current = Some now" "py_get forecast ''list'' (JArr []) = Some lst"
    "py_iter lst = Some items"
    and grp: "group_by_date [] items = Some ds"
    and loop: "daily_loop [] (sorted_items ds) = Some daily"
    and "payload = JObj [(''city'', name), (''country'', country), (''now'', now),
                         (''forecast'', JArr daily)]"
    unfolding normalize_weather_def by (auto split: Option.bind_splits)
  moreover have "daily = spec_forecast items" using grp loop by (rule daily_forecast_SomeD)
  ultimately show ?thesis by blast
qed

lemma normalize_weather_total:
  assumes "current_ok current"
    and "py_get forecast ''list'' (JArr []) = Some lst" and "py_iter lst = Some items"
    and "\<forall>r\<in>set items. reading_ok r"
  shows "\<exists>now name country.
           normalize_weather current forecast =
             Some (JObj [(''city'', name), (''country'', country), (''now'', now),
                         (''forecast'', JArr (spec_forecast items))])"
proof -
  from assms(1) obtain now today name sys country where
    "normalize_now current = Some now" "py_getitem current ''dt'' = Some today"
    "py_getitem current ''name'' = Some name" "py_getitem current ''sys'' = Some sys"
    "py_getitem sys ''country'' = Some country"
    unfolding current_ok_def by (auto split: Option.bind_splits)
  moreover from daily_forecast_total[OF assms(4)] obtain ds where
    "group_by_date [] items = Some ds" "daily_loop [] (sorted_items ds) = Some (spec_forecast items)"
    by blast
  ultimately have "normalize_weather current forecast =
             Some (JObj [(''city'', name), (''country'', country), (''now'', now),
                         (''forecast'', JArr (spec_forecast items))])"
    unfolding normalize_weather_def using assms(2,3) by simp
  then show ?thesis by blast
qed

subsection \<open>Consequences for the payload\<close>

lemma forecast_items_SomeD:
  "forecast_items forecast = Some items \<Longrightarrow>
   \<exists>lst. py_get forecast ''list'' (JArr []) = Some lst \<and> py_iter lst = Some items"
  by (auto simp: forecast_items_def split: Option.bind_splits)

lemma normalize_forecast_SomeD:
  assumes "forecast_items forecast = Some items"
    and "normalize_weather current forecast = Some payload"
  shows "py_getitem payload ''forecast'' = Some (JArr (spec_forecast items))"
proof -
  from normalize_weather_SomeD[OF assms(2)] obtain now lst items' name country where
    "py_get forecast ''list'' (JArr []) = Some lst" "py_iter lst = Some items'"
    and p: "payload = JObj [(''city'', name), (''country'', country), (''now'', now),
                           (''forecast'', JArr (spec_forecast items'))]"
    by blast
  with forecast_items_SomeD[OF assms(1)] have "items' = items" by auto
  with p show ?thesis by simp
qed

lemma normalize_forecast_total:
  assumes "forecast_items forecast = Some items"
    and "current_ok current" and "\<forall>r\<in>set items. reading_ok r"
  shows "\<exists>payload. normalize_weather current forecast = Some payload \<and>
                    py_getitem payload ''forecast'' = Some (JArr (spec_forecast items))"
proof -
  from forecast_items_SomeD[OF assms(1)] obtain lst where
    "py_get forecast ''list'' (JArr []) = Some lst" "py_iter lst = Some items" by blast
  from normalize_weather_total[OF assms(2) this assms(3)] show ?thesis by auto
qed

lemma entry_date_spec_entry: "entry_date (spec_entry d rs) = d"
  by (simp add: entry_date_def spec_entry_def)

lemma spec_forecast_dates: "map entry_date (spec_forecast items) = take 5 (spec_dates items)"
  by (simp add: spec_forecast_def spec_day_def entry_date_spec_entry comp_def)

lemma spec_forecast_length: "length (spec_forecast items) \<le> 5"
  by (simp add: spec_forecast_def)

lemma round_half_even_nearest: "\<bar>of_int (round_half_even x) - x\<bar> \<le> 1 / 2"
  using round_half_even_bounds[of x] by linarith

lemma hd_sorted_Min: "sorted xs \<Longrightarrow> xs \<noteq> [] \<Longrightarrow> hd xs = Min (set xs)"
  by (cases xs) (auto intro!: Min_eqI[symmetric])

lemma is_lower_iff: "is_lower c \<longleftrightarrow> 97 \<le> (of_char c :: nat) \<and> (of_char c :: nat) \<le> 122"
  by (simp add: is_lower_def less_eq_char_def)

lemma is_upper_iff: "is_upper c \<longleftrightarrow> 65 \<le> (of_char c :: nat) \<and> (of_char c :: nat) \<le> 90"
  by (simp add: is_upper_def less_eq_char_def)

lemma to_upper_not_lower: "\<not> is_lower (to_upper c)"
  by (auto simp: to_upper_def is_lower_iff)

lemma to_lower_not_upper: "\<not> is_upper (to_lower c)"
  by (auto simp: to_lower_def is_upper_iff)

lemma to_upper_idem: "to_upper (to_upper c) = to_upper c"
  using to_upper_not_lower[of c] by (simp add: to_upper_def)

lemma to_lower_idem: "to_lower (to_lower c) = to_lower c"
  using to_lower_not_upper[of c] by (simp add: to_lower_def)

lemma capitalize_idem: "capitalize (capitalize s) = capitalize s"
  by (cases s) (simp_all add: to_upper_idem to_lower_idem)

lemma capitalize_first: "capitalize s \<noteq> [] \<Longrightarrow> \<not> is_lower (hd (capitalize s))"
  by (cases s) (simp_all add: to_upper_not_lower)

subsection \<open>The forecast of the payload\<close>

text \<open>
  Claim C1. For every forecast document, normalization groups the entries by the first
  ten characters of \<open>dt_txt\<close>; for each date the reading whose timestamp contains
  \<open>12:00\<close> (the first reading of the date when there is none) supplies \<open>desc\<close> and
  \<open>icon\<close>; \<open>min\<close> is the minimum of \<open>temp_min\<close> and \<open>max\<close> the maximum of \<open>temp_max\<close>
  over the readings of the date, each rounded to the nearest integer; at most five day
  entries are emitted, in ascending order of date. Stated against \<open>spec_forecast\<close>:
  whenever \<open>_normalize\<close> returns, its forecast is the one of the specification, and it does
  return on well-formed documents.
\<close>

theorem normalize_forecast_as_specified:
  assumes "forecast_items forecast = Some items"
  shows "(\<forall>payload. normalize_weather current forecast = Some payload \<longrightarrow>
            py_getitem payload ''forecast'' = Some (JArr (spec_forecast items))) \<and>
         (current_ok current \<and> (\<forall>r\<in>set items. reading_ok r) \<longrightarrow>
            (\<exists>payload. normalize_weather current forecast = Some payload)) \<and>
         length (spec_forecast items) \<le> 5 \<and>
         map entry_date (spec_forecast items) = take 5 (spec_dates items) \<and>
         sorted_wrt (<) (spec_dates items) \<and>
         (\<forall>x. \<bar>of_int (round_half_even x) - x\<bar> \<le> 1 / 2)"
proof (intro conjI allI impI)
  fix payload assume "normalize_weather current forecast = Some payload"
  with assms show "py_getitem payload ''forecast'' = Some (JArr (spec_forecast items))"
    by (rule normalize_forecast_SomeD)
next
  assume "current_ok current \<and> (\<forall>r\<in>set items. reading_ok r)"
  with normalize_forecast_total[OF assms, of current]
  show "\<exists>payload. normalize_weather current forecast = Some payload" by blast
next
  show "length (spec_forecast items) \<le> 5" by (rule spec_forecast_length)
  show "map entry_date (spec_forecast items) = take 5 (spec_dates items)"
    by (rule spec_forecast_dates)
  show "sorted_wrt (<) (spec_dates items)"
    by (simp add: strict_sorted_iff spec_dates_props)
  show "\<bar>of_int (round_half_even x) - x\<bar> \<le> 1 / 2" for x
    by (rule round_half_even_nearest)
qed

theorem normalize_forecast_as_specified_witness:
  "forecast_items small_forecast = Some small_items \<and>
   normalize_weather fixture_current small_forecast = Some small_payload \<and>
   py_getitem small_payload ''forecast'' = Some (JArr (spec_forecast small_items)) \<and>
   spec_forecast small_items = small_daily \<and>
   current_ok fixture_current \<and> list_all reading_ok small_items"
proof -
  have items: "forecast_items small_forecast = Some small_items" by code_simp
  have run: "normalize_weather fixture_current small_forecast = Some small_payload"
    by code_simp
  have ok: "current_ok fixture_current \<and> (\<forall>r\<in>set small_items. reading_ok r)" by code_simp
  have daily: "spec_forecast small_items = small_daily" by code_simp
  from normalize_forecast_as_specified[OF items, of fixture_current] run ok daily items
  show ?thesis unfolding list_all_iff by blast
qed

lemma spec_entry_fields:
  "py_getitem (spec_entry d rs) ''date'' = Some (JStr d)"
  "\<exists>mn. py_getitem (spec_entry d rs) ''min'' = Some (JInt mn)"
  "\<exists>mx. py_getitem (spec_entry d rs) ''max'' = Some (JInt mx)"
  "\<exists>s. py_getitem (spec_entry d rs) ''desc'' = Some (JStr (capitalize s))"
  by (auto simp: spec_entry_def)

lemma spec_dates_length: "length (spec_dates items) = card (date_of ` set items)"
  by (simp add: spec_dates_def length_remdups_card_conv)

text \<open>
  Claim C2. For every current-weather fixture and every forecast fixture of 40 entries
  that span exactly five distinct dates, the forecast array of the normalized output has
  exactly five entries, in ascending order of date, each with integer \<open>min\<close> and \<open>max\<close>
  and with a description whose first letter is capitalized.
\<close>

theorem five_days_from_forty_entries:
  assumes "current_ok current"
    and "forecast_items forecast = Some items"
    and "\<forall>r\<in>set items. reading_ok r"
    and "length items = 40"
    and "card (date_of ` set items) = 5"
  shows "\<exists>payload daily.
           normalize_weather current forecast = Some payload \<and>
           py_getitem payload ''forecast'' = Some (JArr daily) \<and>
           length daily = 5 \<and>
           sorted_wrt (<) (map entry_date daily) \<and>
           (\<forall>e\<in>set daily. \<exists>d mn mx desc.
              py_getitem e ''date'' = Some (JStr d) \<and>
              py_getitem e ''min'' = Some (JInt mn) \<and>
              py_getitem e ''max'' = Some (JInt mx) \<and>
              py_getitem e ''desc'' = Some (JStr desc) \<and>
              capitalize desc = desc \<and>
              (desc \<noteq> [] \<longrightarrow> \<not> is_lower (hd desc)))"
proof -
  from normalize_forecast_total[OF assms(2,1,3)] obtain payload where
    run: "normalize_weather current forecast = Some payload"
    and fc: "py_getitem payload ''forecast'' = Some (JArr (spec_forecast items))" by blast
  have five: "take 5 (spec_dates items) = spec_dates items"
    using assms(5) by (simp add: spec_dates_length)
  have len: "length (spec_forecast items) = 5"
    using assms(5) by (simp add: spec_forecast_def spec_dates_length)
  have srt: "sorted_wrt (<) (map entry_date (spec_forecast items))"
    unfolding spec_forecast_dates five by (simp add: strict_sorted_iff spec_dates_props)
  have each: "\<exists>d mn mx desc.
              py_getitem e ''date'' = Some (JStr d) \<and>
              py_getitem e ''min'' = Some (JInt mn) \<and>
              py_getitem e ''max'' = Some (JInt mx) \<and>
              py_getitem e ''desc'' = Some (JStr desc) \<and>
              capitalize desc = desc \<and>
              (desc \<noteq> [] \<longrightarrow> \<not> is_lower (hd desc))"
    if "e \<in> set (spec_forecast items)" for e
  proof -
    from that obtain d where e: "e = spec_entry d (spec_readings items d)"
      by (auto simp: spec_forecast_def spec_day_def)
    from spec_entry_fields[of d "spec_readings items d"] obtain mn mx s where
      "py_getitem e ''date'' = Some (JStr d)" "py_getitem e ''min'' = Some (JInt mn)"
      "py_getitem e ''max'' = Some (JInt mx)" "py_getitem e ''desc'' = Some (JStr (capitalize s))"
      unfolding e by blast
    moreover have "capitalize (capitalize s) = capitalize s" by (rule capitalize_idem)
    moreover have "capitalize s \<noteq> [] \<longrightarrow> \<not> is_lower (hd (capitalize s))"
      by (simp add: capitalize_first)
    ultimately show ?thesis by blast
  qed
  from run fc len srt each show ?thesis by blast
qed

theorem five_days_from_forty_entries_witness:
  "current_ok fixture_current \<and>
   forecast_items fixture_forecast = Some fixture_items \<and>
   list_all reading_ok fixture_items \<and>
   length fixture_items = 40 \<and>
   card (date_of ` set fixture_items) = 5 \<and>
   normalize_weather fixture_current fixture_forecast = Some fixture_payload \<and>
   py_getitem fixture_payload ''forecast'' = Some (JArr fixture_daily) \<and>
   length fixture_daily = 5 \<and>
   sorted_wrt (<) (map entry_date fixture_daily)"
proof -
  have cur: "current_ok fixture_current" by code_simp
  have items: "forecast_items fixture_forecast = Some fixture_items" by code_simp
  have ok: "list_all reading_ok fixture_items" by code_simp
  have len: "length fixture_items = 40" by code_simp
  have dates: "card (date_of ` set fixture_items) = 5" by code_simp
  have run: "normalize_weather fixture_current fixture_forecast = Some fixture_payload"
    by code_simp
  have fc: "py_getitem fixture_payload ''forecast'' = Some (JArr fixture_daily)"
    by (simp add: fixture_payload_def)
  from five_days_from_forty_entries[OF cur items ok[unfolded list_all_iff] len dates] run fc
  have "length fixture_daily = 5 \<and> sorted_wrt (<) (map entry_date fixture_daily)" by auto
  with cur items ok len dates run fc show ?thesis by simp
qed

text \<open>
  Claim C3. Normalization excludes no date: the dates emitted are exactly the first (up
  to) five distinct dates of the entries in ascending order, whatever the current-weather
  document says about the current day; in particular the earliest forecast date is the
  first entry emitted, also when it is the date of the current day.
\<close>

theorem no_date_is_skipped:
  assumes "forecast_items forecast = Some items"
    and "normalize_weather current forecast = Some payload"
  shows "\<exists>daily.
           py_getitem payload ''forecast'' = Some (JArr daily) \<and>
           map entry_date daily = take 5 (sort (remdups (map date_of items))) \<and>
           (items \<noteq> [] \<longrightarrow> daily \<noteq> [] \<and> entry_date (hd daily) = Min (date_of ` set items))"
proof -
  let ?daily = "spec_forecast items"
  have fc: "py_getitem payload ''forecast'' = Some (JArr ?daily)"
    using assms by (rule normalize_forecast_SomeD)
  have dates: "map entry_date ?daily = take 5 (sort (remdups (map date_of items)))"
    using spec_forecast_dates[of items] by (simp add: spec_dates_def)
  have first: "?daily \<noteq> [] \<and> entry_date (hd ?daily) = Min (date_of ` set items)"
    if "items \<noteq> []"
  proof -
    from that have ne: "spec_dates items \<noteq> []"
      using spec_dates_props(3)[of items] by auto
    then have d: "?daily \<noteq> []" by (simp add: spec_forecast_def)
    have "entry_date (hd ?daily) = hd (map entry_date ?daily)" using d by (simp add: hd_map)
    also have "\<dots> = hd (spec_dates items)"
      unfolding spec_forecast_dates using ne by (cases "spec_dates items") auto
    also have "\<dots> = Min (date_of ` set items)"
      using hd_sorted_Min[OF spec_dates_props(1) ne] by (simp add: spec_dates_props)
    finally show ?thesis using d by simp
  qed
  from fc dates first show ?thesis by blast
qed

theorem no_date_is_skipped_witness:
  "forecast_items fixture_forecast = Some fixture_items \<and>
   normalize_weather fixture_current fixture_forecast = Some fixture_payload \<and>
   py_getitem fixture_current ''dt'' = Some (JInt 1704110400) \<and>
   py_getitem fixture_payload ''forecast'' = Some (JArr fixture_daily) \<and>
   map entry_date fixture_daily =
     [''2024-01-01'', ''2024-01-02'', ''2024-01-03'', ''2024-01-04'', ''2024-01-05''] \<and>
   Min (date_of ` set fixture_items) = ''2024-01-01''"
proof -
  have items: "forecast_items fixture_forecast = Some fixture_items" by code_simp
  have run: "normalize_weather fixture_current fixture_forecast = Some fixture_payload"
    by code_simp
  have dt: "py_getitem fixture_current ''dt'' = Some (JInt 1704110400)" by code_simp
  have fc: "py_getitem fixture_payload ''forecast'' = Some (JArr fixture_daily)"
    by (simp add: fixture_payload_def)
  have ne: "fixture_items \<noteq> []" by code_simp
  have dates: "map entry_date fixture_daily =
     [''2024-01-01'', ''2024-01-02'', ''2024-01-03'', ''2024-01-04'', ''2024-01-05'']"
    by code_simp
  from no_date_is_skipped[OF items run] fc ne
  have "entry_date (hd fixture_daily) = Min (date_of ` set fixture_items)" by auto
  moreover have "entry_date (hd fixture_daily) = ''2024-01-01''" by code_simp
  ultimately have "Min (date_of ` set fixture_items) = ''2024-01-01''" by simp
  with items run dt fc dates show ?thesis by simp
qed

text \<open>
  Claim C10. When every reading has \<open>temp_min \<le> temp_max\<close>, every day entry emitted has
  \<open>min \<le> max\<close>; and a forecast document whose \<open>list\<close> field is missing or empty
  normalizes to an empty forecast array, not to an error.
\<close>

theorem min_le_max_and_empty_list:
  "(forecast_items forecast = Some items \<and>
    normalize_weather current forecast = Some payload \<and>
    (\<forall>r\<in>set items. temp_of ''temp_min'' r \<le> temp_of ''temp_max'' r) \<longrightarrow>
      (\<exists>daily. py_getitem payload ''forecast'' = Some (JArr daily) \<and>
         (\<forall>e\<in>set daily. \<exists>mn mx.
            py_getitem e ''min'' = Some (JInt mn) \<and>
            py_getitem e ''max'' = Some (JInt mx) \<and> mn \<le> mx))) \<and>
   (current_ok current \<and>
    (py_getitem (JObj kvs) ''list'' = None \<or> py_getitem (JObj kvs) ''list'' = Some (JArr [])) \<longrightarrow>
      (\<exists>payload. normalize_weather current (JObj kvs) = Some payload \<and>
         py_getitem payload ''forecast'' = Some (JArr [])))"
proof (intro conjI impI)
  assume a: "forecast_items forecast = Some items \<and>
    normalize_weather current forecast = Some payload \<and>
    (\<forall>r\<in>set items. temp_of ''temp_min'' r \<le> temp_of ''temp_max'' r)"
  then have fc: "py_getitem payload ''forecast'' = Some (JArr (spec_forecast items))"
    by (blast intro: normalize_forecast_SomeD)
  have "\<exists>mn mx. py_getitem e ''min'' = Some (JInt mn) \<and>
                py_getitem e ''max'' = Some (JInt mx) \<and> mn \<le> mx"
    if "e \<in> set (spec_forecast items)" for e
  proof -
    from that obtain d where d: "d \<in> set (spec_dates items)"
      and e: "e = spec_entry d (spec_readings items d)"
      by (auto simp: spec_forecast_def spec_day_def dest: in_set_takeD)
    let ?rs = "spec_readings items d"
    from d obtain r where r: "r \<in> set ?rs"
      by (auto simp: spec_dates_props spec_readings_def)
    then have "r \<in> set items" by (simp add: spec_readings_def)
    with a have le: "temp_of ''temp_min'' r \<le> temp_of ''temp_max'' r" by blast
    have "Min (set (map (temp_of ''temp_min'') ?rs)) \<le> temp_of ''temp_min'' r"
      using r by (intro Min_le) auto
    moreover have "temp_of ''temp_max'' r \<le> Max (set (map (temp_of ''temp_max'') ?rs))"
      using r by (intro Max_ge) auto
    ultimately have "Min (set (map (temp_of ''temp_min'') ?rs))
                     \<le> Max (set (map (temp_of ''temp_max'') ?rs))"
      using le by linarith
    then have "round_half_even (Min (set (map (temp_of ''temp_min'') ?rs)))
               \<le> round_half_even (Max (set (map (temp_of ''temp_max'') ?rs)))"
      by (rule round_half_even_mono)
    then show ?thesis unfolding e by (simp add: spec_entry_def)
  qed
  with fc show "\<exists>daily. py_getitem payload ''forecast'' = Some (JArr daily) \<and>
         (\<forall>e\<in>set daily. \<exists>mn mx.
            py_getitem e ''min'' = Some (JInt mn) \<and>
            py_getitem e ''max'' = Some (JInt mx) \<and> mn \<le> mx)" by blast
next
  assume b: "current_ok current \<and>
    (py_getitem (JObj kvs) ''list'' = None \<or> py_getitem (JObj kvs) ''list'' = Some (JArr []))"
  then have "forecast_items (JObj kvs) = Some []"
    by (auto simp: forecast_items_def)
  from normalize_forecast_total[OF this, of current] b
  show "\<exists>payload. normalize_weather current (JObj kvs) = Some payload \<and>
         py_getitem payload ''forecast'' = Some (JArr [])"
    by (simp add: spec_forecast_def spec_dates_def)
qed

theorem min_le_max_and_empty_list_witness:
  "forecast_items fixture_forecast = Some fixture_items \<and>
   normalize_weather fixture_current fixture_forecast = Some fixture_payload \<and>
   list_all (\<lambda>r. temp_of ''temp_min'' r \<le> temp_of ''temp_max'' r) fixture_items \<and>
   py_getitem fixture_payload ''forecast'' = Some (JArr fixture_daily) \<and>
   list_all (\<lambda>e. \<exists>mn mx. py_getitem e ''min'' = Some (JInt mn) \<and>
                          py_getitem e ''max'' = Some (JInt mx) \<and> mn \<le> mx) fixture_daily \<and>
   current_ok fixture_current \<and>
   py_getitem (JObj [(''cod'', JStr ''200'')]) ''list'' = None \<and>
   (\<exists>payload. normalize_weather fixture_current (JObj [(''cod'', JStr ''200'')]) = Some payload \<and>
       py_getitem payload ''forecast'' = Some (JArr [])) \<and>
   py_getitem (JObj [(''list'', JArr [])]) ''list'' = Some (JArr []) \<and>
   (\<exists>payload. normalize_weather fixture_current (JObj [(''list'', JArr [])]) = Some payload \<and>
       py_getitem payload ''forecast'' = Some (JArr []))"
proof -
  have items: "forecast_items fixture_forecast = Some fixture_items" by code_simp
  have run: "normalize_weather fixture_current fixture_forecast = Some fixture_payload"
    by code_simp
  have le: "list_all (\<lambda>r. temp_of ''temp_min'' r \<le> temp_of ''temp_max'' r) fixture_items"
    by code_simp
  have fc: "py_getitem fixture_payload ''forecast'' = Some (JArr fixture_daily)"
    by (simp add: fixture_payload_def)
  have cur: "current_ok fixture_current" by code_simp
  have m: "py_getitem (JObj [(''cod'', JStr ''200'')]) ''list'' = None" by simp
  have e: "py_getitem (JObj [(''list'', JArr [])]) ''list'' = Some (JArr [])" by simp
  note th = min_le_max_and_empty_list
  from th[of fixture_forecast fixture_items fixture_current fixture_payload] items run le fc
  have 1: "list_all (\<lambda>e. \<exists>mn mx. py_getitem e ''min'' = Some (JInt mn) \<and>
                          py_getitem e ''max'' = Some (JInt mx) \<and> mn \<le> mx) fixture_daily"
    unfolding list_all_iff by auto
  from th[of _ _ fixture_current _ "[(''cod'', JStr ''200'')]"] cur m
  have 2: "\<exists>payload. normalize_weather fixture_current (JObj [(''cod'', JStr ''200'')]) = Some payload \<and>
       py_getitem payload ''forecast'' = Some (JArr [])" by blast
  from th[of _ _ fixture_current _ "[(''list'', JArr [])]"] cur e
  have 3: "\<exists>payload. normalize_weather fixture_current (JObj [(''list'', JArr [])]) = Some payload \<and>
       py_getitem payload ''forecast'' = Some (JArr [])" by blast
  from items run le fc 1 cur m 2 e 3 show ?thesis by blast
qed

subsection \<open>The handler\<close>

lemma strip_eq_Nil: "strip s = [] \<longleftrightarrow> (\<forall>c\<in>set s. is_space c)"
proof
  assume "strip s = []"
  then have "\<forall>c\<in>set (dropWhile is_space s). is_space c"
    by (simp add: strip_def)
  then have "dropWhile is_space s = []"
    by (metis hd_dropWhile list.set_sel(1))
  then show "\<forall>c\<in>set s. is_space c" by simp
next
  assume "\<forall>c\<in>set s. is_space c"
  then have d: "dropWhile is_space s = []" by simp
  show "strip s = []" unfolding strip_def d by simp
qed

lemma status_code_error_response [simp]:
  "status_code (error_response lib status message) = status"
  by (simp add: error_response_def)

lemma fetch_calls: "snd (fetch w rq) = [rq]"
  by (simp add: fetch_def split: outcome.splits)

lemma fetch_current_calls: "snd (fetch_current w city api_key) = [current_request city api_key]"
  by (simp add: fetch_current_def fetch_calls)

lemma fetch_forecast_calls:
  "snd (fetch_forecast w city api_key) = [forecast_request city api_key]"
  by (simp add: fetch_forecast_def fetch_calls)

lemma strip_lima: "strip (unicode_of '' Lima '') = lima"
  by (simp add: strip_def unicode_of_def lima_def is_space_def)

text \<open>The handler when the city is empty after trimming.\<close>

lemma main_blank_city:
  assumes "params req ''city'' = None \<or>
           (\<exists>s. params req ''city'' = Some s \<and> (\<forall>c\<in>set s. is_space c))"
  shows "main lib w req =
           (Some (error_response lib 400 ''Missing required parameter: city''), [])"
proof -
  have "strip (case params req ''city'' of None \<Rightarrow> [] | Some s \<Rightarrow> s) = []"
    using assms by (auto simp: strip_eq_Nil)
  then show ?thesis by (simp add: main_def)
qed

text \<open>The handler once the city and the API key have passed their checks.\<close>

lemma main_validated:
  assumes "params req ''city'' = Some raw" and "strip raw \<noteq> []"
    and "environ w ''OPENWEATHER_API_KEY'' = Some api_key" and "api_key \<noteq> []"
  shows "main lib w req =
     (case fst (fetch_current w (strip raw) api_key) of
        Raises e \<Rightarrow> (handle_fetch_error lib e, [current_request (strip raw) api_key])
      | Returns current \<Rightarrow>
          (case fst (fetch_forecast w (strip raw) api_key) of
             Raises e \<Rightarrow>
               (handle_fetch_error lib e,
                [current_request (strip raw) api_key, forecast_request (strip raw) api_key])
           | Returns forecast \<Rightarrow>
               (respond lib current forecast,
                [current_request (strip raw) api_key, forecast_request (strip raw) api_key])))"
proof -
  obtain a ca where a: "fetch_current w (strip raw) api_key = (a, ca)"
    by (cases "fetch_current w (strip raw) api_key")
  obtain b cb where b: "fetch_forecast w (strip raw) api_key = (b, cb)"
    by (cases "fetch_forecast w (strip raw) api_key")
  have ca: "ca = [current_request (strip raw) api_key]"
    using fetch_current_calls[of w "strip raw" api_key] a by simp
  have cb: "cb = [forecast_request (strip raw) api_key]"
    using fetch_forecast_calls[of w "strip raw" api_key] b by simp
  show ?thesis
    using assms by (simp add: main_def Let_def a b ca cb split: outcome.splits)
qed

text \<open>
  Claim C6. A request whose \<open>city\<close> parameter is absent, empty or made of whitespace only
  (empty after trimming) gets a 400 response, and no upstream call is issued. Whitespace
  is what \<open>str.strip()\<close> removes, beyond ASCII too.
\<close>

theorem blank_city_is_rejected:
  assumes "params req ''city'' = None \<or>
           (\<exists>s. params req ''city'' = Some s \<and> ((\<forall>c\<in>set s. is_space c) \<or> strip s = []))"
  shows "main lib w req =
           (Some (error_response lib 400 ''Missing required parameter: city''), []) \<and>
         map_option status_code (fst (main lib w req)) = Some 400 \<and>
         snd (main lib w req) = []"
proof -
  from assms have "params req ''city'' = None \<or>
           (\<exists>s. params req ''city'' = Some s \<and> (\<forall>c\<in>set s. is_space c))"
    by (auto simp: strip_eq_Nil)
  then show ?thesis by (simp add: main_blank_city)
qed

theorem blank_city_is_rejected_witness:
  "params empty_request ''city'' = None \<and>
   main fixture_lib fixture_world empty_request =
     (Some (error_response fixture_lib 400 ''Missing required parameter: city''), []) \<and>
   params blank_request ''city'' = Some [32, 9, 32] \<and>
   list_all is_space [32, 9, 32] \<and>
   main fixture_lib fixture_world blank_request =
     (Some (error_response fixture_lib 400 ''Missing required parameter: city''), []) \<and>
   params nbsp_request ''city'' = Some [160, 133, 8195] \<and>
   strip [160, 133, 8195] = [] \<and>
   main fixture_lib fixture_world nbsp_request =
     (Some (error_response fixture_lib 400 ''Missing required parameter: city''), []) \<and>
   map_option status_code (fst (main fixture_lib fixture_world nbsp_request)) = Some 400 \<and>
   snd (main fixture_lib fixture_world nbsp_request) = []"
proof -
  have a: "params empty_request ''city'' = None" by (simp add: empty_request_def)
  have b: "params blank_request ''city'' = Some [32, 9, 32]"
    by (simp add: blank_request_def)
  have c: "list_all is_space [32, 9, 32]" by (simp add: is_space_def)
  have d: "params nbsp_request ''city'' = Some [160, 133, 8195]"
    by (simp add: nbsp_request_def)
  have e: "strip [160, 133, 8195] = []" by (simp add: strip_def is_space_def)
  from blank_city_is_rejected[of empty_request fixture_lib fixture_world] a
  have 1: "main fixture_lib fixture_world empty_request =
     (Some (error_response fixture_lib 400 ''Missing required parameter: city''), [])" by simp
  from blank_city_is_rejected[of blank_request fixture_lib fixture_world] b c
  have 2: "main fixture_lib fixture_world blank_request =
     (Some (error_response fixture_lib 400 ''Missing required parameter: city''), [])"
    unfolding list_all_iff by blast
  from blank_city_is_rejected[of nbsp_request fixture_lib fixture_world] d e
  have 3: "main fixture_lib fixture_world nbsp_request =
     (Some (error_response fixture_lib 400 ''Missing required parameter: city''), []) \<and>
     map_option status_code (fst (main fixture_lib fixture_world nbsp_request)) = Some 400 \<and>
     snd (main fixture_lib fixture_world nbsp_request) = []"
    by blast
  from a b c d e 1 2 3 show ?thesis by blast
qed

text \<open>
  Claim C5, as amended. The city is checked before the API key. A request whose \<open>city\<close>
  is not empty after trimming gets a 500 response, and no upstream call is issued, when
  \<open>OPENWEATHER_API_KEY\<close> is absent or empty; a request whose \<open>city\<close> is absent or blank
  gets a 400 response whether or not the key is set.
\<close>

theorem missing_key_after_city_check:
  "(params req ''city'' = Some raw \<and> strip raw \<noteq> [] \<and>
    (environ w ''OPENWEATHER_API_KEY'' = None \<or> environ w ''OPENWEATHER_API_KEY'' = Some []) \<longrightarrow>
      main lib w req =
        (Some (error_response lib 500 ''Server configuration error: missing API key''), []) \<and>
      map_option status_code (fst (main lib w req)) = Some 500 \<and>
      snd (main lib w req) = []) \<and>
   (params req ''city'' = None \<or>
    (\<exists>s. params req ''city'' = Some s \<and> strip s = []) \<longrightarrow>
      main lib w req =
        (Some (error_response lib 400 ''Missing required parameter: city''), []) \<and>
      map_option status_code (fst (main lib w req)) = Some 400 \<and>
      snd (main lib w req) = [])"
proof (intro conjI impI)
  assume "params req ''city'' = Some raw \<and> strip raw \<noteq> [] \<and>
    (environ w ''OPENWEATHER_API_KEY'' = None \<or> environ w ''OPENWEATHER_API_KEY'' = Some [])"
  then have m: "main lib w req =
        (Some (error_response lib 500 ''Server configuration error: missing API key''), [])"
    by (auto simp: main_def)
  show "main lib w req =
        (Some (error_response lib 500 ''Server configuration error: missing API key''), [])"
    by (rule m)
  show "map_option status_code (fst (main lib w req)) = Some 500" by (simp add: m)
  show "snd (main lib w req) = []" by (simp add: m)
next
  assume "params req ''city'' = None \<or> (\<exists>s. params req ''city'' = Some s \<and> strip s = [])"
  then have "params req ''city'' = None \<or>
           (\<exists>s. params req ''city'' = Some s \<and> (\<forall>c\<in>set s. is_space c))"
    by (auto simp: strip_eq_Nil)
  then have m: "main lib w req =
        (Some (error_response lib 400 ''Missing required parameter: city''), [])"
    by (rule main_blank_city)
  show "main lib w req =
        (Some (error_response lib 400 ''Missing required parameter: city''), [])"
    by (rule m)
  show "map_option status_code (fst (main lib w req)) = Some 400" by (simp add: m)
  show "snd (main lib w req) = []" by (simp add: m)
qed

theorem missing_key_after_city_check_witness:
  "params fixture_request ''city'' = Some (unicode_of '' Lima '') \<and>
   strip (unicode_of '' Lima '') = lima \<and> lima \<noteq> [] \<and>
   environ no_key_world ''OPENWEATHER_API_KEY'' = None \<and>
   map_option status_code (fst (main fixture_lib no_key_world fixture_request)) = Some 500 \<and>
   snd (main fixture_lib no_key_world fixture_request) = [] \<and>
   environ empty_key_world ''OPENWEATHER_API_KEY'' = Some [] \<and>
   map_option status_code (fst (main fixture_lib empty_key_world fixture_request)) = Some 500 \<and>
   params nbsp_request ''city'' = Some [160, 133, 8195] \<and> strip [160, 133, 8195] = [] \<and>
   map_option status_code (fst (main fixture_lib no_key_world nbsp_request)) = Some 400 \<and>
   map_option status_code (fst (main fixture_lib fixture_world nbsp_request)) = Some 400 \<and>
   params empty_request ''city'' = None \<and>
   map_option status_code (fst (main fixture_lib no_key_world empty_request)) = Some 400"
proof -
  have a: "params fixture_request ''city'' = Some (unicode_of '' Lima '')"
    by (simp add: fixture_request_def)
  have b: "strip (unicode_of '' Lima '') = lima" by (rule strip_lima)
  have b': "lima \<noteq> []" by (simp add: lima_def unicode_of_def)
  have c: "environ no_key_world ''OPENWEATHER_API_KEY'' = None" by (simp add: no_key_world_def)
  have c': "environ empty_key_world ''OPENWEATHER_API_KEY'' = Some []"
    by (simp add: empty_key_world_def)
  have d: "params nbsp_request ''city'' = Some [160, 133, 8195]"
    by (simp add: nbsp_request_def)
  have e: "strip [160, 133, 8195] = []" by (simp add: strip_def is_space_def)
  have f: "params empty_request ''city'' = None" by (simp add: empty_request_def)
  note th = missing_key_after_city_check
  from th[of fixture_request "unicode_of '' Lima ''" no_key_world fixture_lib] a b b' c
  have 1: "map_option status_code (fst (main fixture_lib no_key_world fixture_request)) = Some 500 \<and>
           snd (main fixture_lib no_key_world fixture_request) = []" by simp
  from th[of fixture_request "unicode_of '' Lima ''" empty_key_world fixture_lib] a b b' c'
  have 2: "map_option status_code (fst (main fixture_lib empty_key_world fixture_request)) = Some 500"
    by simp
  from th[of nbsp_request _ no_key_world fixture_lib] d e
  have 3: "map_option status_code (fst (main fixture_lib no_key_world nbsp_request)) = Some 400"
    by simp
  from th[of nbsp_request _ fixture_world fixture_lib] d e
  have 4: "map_option status_code (fst (main fixture_lib fixture_world nbsp_request)) = Some 400"
    by simp
  from th[of empty_request _ no_key_world fixture_lib] f
  have 5: "map_option status_code (fst (main fixture_lib no_key_world empty_request)) = Some 400"
    by simp
  from a b b' c c' d e f 1 2 3 4 5 show ?thesis by blast
qed

text \<open>
  Claim C5, as stated, fails: without the API key the handler answers 400, not 500, when
  the city is blank.
\<close>

theorem missing_key_blank_city_counterexample:
  "environ no_key_world ''OPENWEATHER_API_KEY'' = None \<and>
   params blank_request ''city'' = Some [32, 9, 32] \<and>
   map_option status_code (fst (main fixture_lib no_key_world blank_request)) = Some 400"
  by (simp add: main_def no_key_world_def blank_request_def strip_def is_space_def)

lemma body_error_response:
  "body (error_response lib status message) = json_dumps lib (JObj [(''error'', JStr message)])"
  by (simp add: error_response_def)

text \<open>The fixture request in a world that has the fixture key.\<close>

lemma fixture_key_nonempty: "fixture_key \<noteq> []"
  by (simp add: fixture_key_def unicode_of_def)

lemma fixture_city: "params fixture_request ''city'' = Some (unicode_of '' Lima '')"
  by (simp add: fixture_request_def)

lemma answering_key: "environ (answering a b) ''OPENWEATHER_API_KEY'' = Some fixture_key"
  by (simp add: answering_def)

lemma answering_current_raises:
  "fst (fetch_current (answering (Raises e) b) city api_key) = Raises e"
  by (simp add: fetch_current_def fetch_def current_request_def answering_def)

lemma answering_current_ok:
  "fst (fetch_current (answering (ok_response doc) b) city api_key) = Returns doc"
  by (simp add: fetch_current_def fetch_def current_request_def answering_def ok_response_def
      raise_for_status_def)

lemma answering_forecast_raises:
  "fst (fetch_forecast (answering a (Raises e)) city api_key) = Raises e"
  by (simp add: fetch_forecast_def fetch_def forecast_request_def answering_def
      OPENWEATHER_BASE_def)

lemma answering_forecast_ok:
  "fst (fetch_forecast (answering a (ok_response doc)) city api_key) = Returns doc"
  by (simp add: fetch_forecast_def fetch_def forecast_request_def answering_def ok_response_def
      raise_for_status_def OPENWEATHER_BASE_def)

lemma answering_forecast_unavailable:
  "fst (fetch_forecast (answering a unavailable) city api_key) = Raises RequestException"
  by (simp add: fetch_forecast_def fetch_def forecast_request_def answering_def unavailable_def
      raise_for_status_def OPENWEATHER_BASE_def)

text \<open>
  Claim C7. With a non-empty city and the API key configured, an upstream call that
  times out gives a 504 response and one that fails with any other transport error gives
  a 502 response; in both cases nothing is retried: the failed call is the last one
  issued, and each endpoint is called once at most.
\<close>

theorem upstream_failure_is_mapped:
  assumes "params req ''city'' = Some raw" and "strip raw = city" and "city \<noteq> []"
    and "environ w ''OPENWEATHER_API_KEY'' = Some api_key" and "api_key \<noteq> []"
  shows "(fst (fetch_current w city api_key) = Raises Timeout \<longrightarrow>
            main lib w req =
              (Some (error_response lib 504 ''Upstream API timed out. Please try again.''),
               [current_request city api_key]) \<and>
            map_option status_code (fst (main lib w req)) = Some 504) \<and>
         (fst (fetch_current w city api_key) = Raises RequestException \<longrightarrow>
            main lib w req =
              (Some (error_response lib 502 ''Failed to reach weather service.''),
               [current_request city api_key]) \<and>
            map_option status_code (fst (main lib w req)) = Some 502) \<and>
         ((\<exists>current. fst (fetch_current w city api_key) = Returns current) \<and>
          fst (fetch_forecast w city api_key) = Raises Timeout \<longrightarrow>
            main lib w req =
              (Some (error_response lib 504 ''Upstream API timed out. Please try again.''),
               [current_request city api_key, forecast_request city api_key]) \<and>
            map_option status_code (fst (main lib w req)) = Some 504) \<and>
         ((\<exists>current. fst (fetch_current w city api_key) = Returns current) \<and>
          fst (fetch_forecast w city api_key) = Raises RequestException \<longrightarrow>
            main lib w req =
              (Some (error_response lib 502 ''Failed to reach weather service.''),
               [current_request city api_key, forecast_request city api_key]) \<and>
            map_option status_code (fst (main lib w req)) = Some 502) \<and>
         snd (main lib w req) \<in>
           {[current_request city api_key],
            [current_request city api_key, forecast_request city api_key]} \<and>
         (\<forall>resp. fst (main lib w req) = Some resp \<and> status_code resp \<in> {502, 504} \<longrightarrow>
            mimetype resp = ''application/json'' \<and>
            headers resp = [(''Access-Control-Allow-Origin'', ''*'')] \<and>
            (\<exists>message. body resp = json_dumps lib (JObj [(''error'', JStr message)])))"
proof -
  note m = main_validated[OF assms(1) _ assms(4,5), of lib, unfolded assms(2), OF assms(3)]
  have shape: "mimetype resp = ''application/json'' \<and>
            headers resp = [(''Access-Control-Allow-Origin'', ''*'')] \<and>
            (\<exists>message. body resp = json_dumps lib (JObj [(''error'', JStr message)]))"
    if "fst (main lib w req) = Some resp" "status_code resp \<in> {502, 504}" for resp
  proof -
    from that(1) have "(\<exists>e. handle_fetch_error lib e = Some resp) \<or>
        (\<exists>current forecast. respond lib current forecast = Some resp)"
      unfolding m by (auto split: outcome.splits)
    then show ?thesis
    proof
      assume "\<exists>e. handle_fetch_error lib e = Some resp"
      then obtain e where "handle_fetch_error lib e = Some resp" ..
      then show ?thesis by (cases e) (auto simp: error_response_def)
    next
      assume "\<exists>current forecast. respond lib current forecast = Some resp"
      then show ?thesis using that(2)
        by (auto simp: respond_def error_response_def split: Option.bind_splits if_splits)
    qed
  qed
  have rest: "(fst (fetch_current w city api_key) = Raises Timeout \<longrightarrow>
            main lib w req =
              (Some (error_response lib 504 ''Upstream API timed out. Please try again.''),
               [current_request city api_key]) \<and>
            map_option status_code (fst (main lib w req)) = Some 504) \<and>
         (fst (fetch_current w city api_key) = Raises RequestException \<longrightarrow>
            main lib w req =
              (Some (error_response lib 502 ''Failed to reach weather service.''),
               [current_request city api_key]) \<and>
            map_option status_code (fst (main lib w req)) = Some 502) \<and>
         ((\<exists>current. fst (fetch_current w city api_key) = Returns current) \<and>
          fst (fetch_forecast w city api_key) = Raises Timeout \<longrightarrow>
            main lib w req =
              (Some (error_response lib 504 ''Upstream API timed out. Please try again.''),
               [current_request city api_key, forecast_request city api_key]) \<and>
            map_option status_code (fst (main lib w req)) = Some 504) \<and>
         ((\<exists>current. fst (fetch_current w city api_key) = Returns current) \<and>
          fst (fetch_forecast w city api_key) = Raises RequestException \<longrightarrow>
            main lib w req =
              (Some (error_response lib 502 ''Failed to reach weather service.''),
               [current_request city api_key, forecast_request city api_key]) \<and>
            map_option status_code (fst (main lib w req)) = Some 502) \<and>
         snd (main lib w req) \<in>
           {[current_request city api_key],
            [current_request city api_key, forecast_request city api_key]}"
    unfolding m by (auto split: outcome.splits)
  from rest shape show ?thesis by blast
qed

theorem upstream_failure_is_mapped_witness:
  "params fixture_request ''city'' = Some (unicode_of '' Lima '') \<and>
   strip (unicode_of '' Lima '') = lima \<and>
   main fixture_lib (answering (Raises Timeout) (ok_response fixture_forecast)) fixture_request =
     (Some \<lparr>body = json_dumps fixture_lib
                     (JObj [(''error'', JStr ''Upstream API timed out. Please try again.'')]),
            status_code = 504, mimetype = ''application/json'',
            headers = [(''Access-Control-Allow-Origin'', ''*'')]\<rparr>,
      [current_request lima fixture_key]) \<and>
   main fixture_lib (answering (Raises RequestException) (ok_response fixture_forecast))
       fixture_request =
     (Some \<lparr>body = json_dumps fixture_lib
                     (JObj [(''error'', JStr ''Failed to reach weather service.'')]),
            status_code = 502, mimetype = ''application/json'',
            headers = [(''Access-Control-Allow-Origin'', ''*'')]\<rparr>,
      [current_request lima fixture_key]) \<and>
   map_option status_code
     (fst (main fixture_lib (answering (ok_response fixture_current) (Raises Timeout))
             fixture_request)) = Some 504 \<and>
   snd (main fixture_lib (answering (ok_response fixture_current) (Raises Timeout))
          fixture_request) =
     [current_request lima fixture_key, forecast_request lima fixture_key] \<and>
   map_option status_code
     (fst (main fixture_lib (answering (ok_response fixture_current) unavailable)
             fixture_request)) = Some 502 \<and>
   snd (main fixture_lib (answering (ok_response fixture_current) unavailable)
          fixture_request) =
     [current_request lima fixture_key, forecast_request lima fixture_key]"
proof -
  note th = upstream_failure_is_mapped[OF fixture_city strip_lima _ answering_key
      fixture_key_nonempty, of _ _ fixture_lib]
  have ne: "lima \<noteq> []" by (simp add: lima_def unicode_of_def)
  from th[of "Raises Timeout" "ok_response fixture_forecast"] ne
  have a: "main fixture_lib (answering (Raises Timeout) (ok_response fixture_forecast))
             fixture_request =
     (Some (error_response fixture_lib 504 ''Upstream API timed out. Please try again.''),
      [current_request lima fixture_key])"
    by (simp add: answering_current_raises)
  from th[of "Raises RequestException" "ok_response fixture_forecast"] ne
  have b: "main fixture_lib (answering (Raises RequestException) (ok_response fixture_forecast))
             fixture_request =
     (Some (error_response fixture_lib 502 ''Failed to reach weather service.''),
      [current_request lima fixture_key])"
    by (simp add: answering_current_raises)
  from th[of "ok_response fixture_current" "Raises Timeout"] ne
  have c: "main fixture_lib (answering (ok_response fixture_current) (Raises Timeout))
             fixture_request =
     (Some (error_response fixture_lib 504 ''Upstream API timed out. Please try again.''),
      [current_request lima fixture_key, forecast_request lima fixture_key])"
    by (simp add: answering_current_ok answering_forecast_raises)
  from th[of "ok_response fixture_current" unavailable] ne
  have d: "main fixture_lib (answering (ok_response fixture_current) unavailable)
             fixture_request =
     (Some (error_response fixture_lib 502 ''Failed to reach weather service.''),
      [current_request lima fixture_key, forecast_request lima fixture_key])"
    by (simp add: answering_current_ok answering_forecast_unavailable)
  show ?thesis
    unfolding a b c d using fixture_city strip_lima by (simp add: error_response_def)
qed

text \<open>
  Claim C4. With a non-empty city and the API key configured, when both fetches succeed
  and the \<open>cod\<close> field of the current-weather answer is not 200, the handler returns a 404
  response whose error message embeds the upstream \<open>message\<close>, or \<open>City not found\<close> when
  the answer has none.
\<close>

theorem upstream_error_is_not_found:
  assumes "params req ''city'' = Some raw" and "strip raw = city" and "city \<noteq> []"
    and "environ w ''OPENWEATHER_API_KEY'' = Some api_key" and "api_key \<noteq> []"
    and "fst (fetch_current w city api_key) = Returns current"
    and "fst (fetch_forecast w city api_key) = Returns forecast"
    and "py_get current ''cod'' JNull = Some cod" and "num_of cod \<noteq> Some 200"
  shows "\<exists>msg text.
           py_get current ''message'' (JStr ''City not found'') = Some msg \<and>
           text = ''OpenWeather error: '' @ format_value lib msg \<and>
           fst (main lib w req) = Some (error_response lib 404 text) \<and>
           map_option status_code (fst (main lib w req)) = Some 404 \<and>
           map_option body (fst (main lib w req)) =
             Some (json_dumps lib (JObj [(''error'', JStr text)])) \<and>
           (py_getitem current ''message'' = None \<longrightarrow>
              text = ''OpenWeather error: City not found'') \<and>
           (\<forall>s. py_getitem current ''message'' = Some (JStr s) \<longrightarrow>
              text = ''OpenWeather error: '' @ s)"
proof -
  note m = main_validated[OF assms(1) _ assms(4,5), of lib, unfolded assms(2), OF assms(3)]
  from assms(8) obtain kvs where kvs: "current = JObj kvs" by (cases current) auto
  define msg where "msg = (case map_of kvs ''message'' of None \<Rightarrow> JStr ''City not found'' | Some v \<Rightarrow> v)"
  have g: "py_get current ''message'' (JStr ''City not found'') = Some msg"
    by (simp add: kvs msg_def)
  have r: "respond lib current forecast =
      Some (error_response lib 404 (''OpenWeather error: '' @ format_value lib msg))"
    using assms(8,9) g by (simp add: respond_def)
  have "fst (main lib w req) =
      Some (error_response lib 404 (''OpenWeather error: '' @ format_value lib msg))"
    unfolding m using assms(6,7) r by simp
  moreover have "py_getitem current ''message'' = None \<longrightarrow>
      ''OpenWeather error: '' @ format_value lib msg = ''OpenWeather error: City not found''"
    by (simp add: kvs msg_def format_value_def)
  moreover have "\<forall>s. py_getitem current ''message'' = Some (JStr s) \<longrightarrow>
      ''OpenWeather error: '' @ format_value lib msg = ''OpenWeather error: '' @ s"
    by (simp add: kvs msg_def format_value_def)
  ultimately show ?thesis using g by (simp add: error_response_def)
qed

theorem upstream_error_is_not_found_witness:
  "params fixture_request ''city'' = Some (unicode_of '' Lima '') \<and>
   strip (unicode_of '' Lima '') = lima \<and>
   py_get not_found_current ''cod'' JNull = Some (JStr ''404'') \<and>
   py_getitem not_found_current ''message'' = Some (JStr ''city not found'') \<and>
   fst (main fixture_lib
          (answering (ok_response not_found_current) (ok_response fixture_forecast))
          fixture_request) =
     Some (error_response fixture_lib 404 ''OpenWeather error: city not found'')"
proof -
  let ?w = "answering (ok_response not_found_current) (ok_response fixture_forecast)"
  have ne: "lima \<noteq> []" by (simp add: lima_def unicode_of_def)
  have cod: "py_get not_found_current ''cod'' JNull = Some (JStr ''404'')"
    by (simp add: not_found_current_def)
  have msg: "py_getitem not_found_current ''message'' = Some (JStr ''city not found'')"
    by (simp add: not_found_current_def)
  have cur: "fst (fetch_current ?w lima fixture_key) = Returns not_found_current"
    by (rule answering_current_ok)
  have fc: "fst (fetch_forecast ?w lima fixture_key) = Returns fixture_forecast"
    by (rule answering_forecast_ok)
  from upstream_error_is_not_found[OF fixture_city strip_lima ne answering_key
      fixture_key_nonempty cur fc cod, of fixture_lib] msg
  have "fst (main fixture_lib ?w fixture_request) =
     Some (error_response fixture_lib 404 ''OpenWeather error: city not found'')"
    by auto
  with fixture_city strip_lima cod msg show ?thesis by blast
qed

lemma error_response_shape:
  "body (error_response lib status message) = json_dumps lib (JObj [(''error'', JStr message)])"
  "mimetype (error_response lib status message) = ''application/json''"
  "headers (error_response lib status message) = [(''Access-Control-Allow-Origin'', ''*'')]"
  by (simp_all add: error_response_def)






end
